theory Spec2Isabelle
  imports Complex_Main
begin

section \<open>JavaScript values\<close>

text \<open>
  The front end is TypeScript; much of the data it inspects is typed \<open>any\<close> (parsed JSON from
  the server or from localStorage). Such data is a \<open>jsval\<close>. A number is a real, an infinity
  or NaN. Arithmetic and comparison are exact: the rounding of doubles is not modelled, and
  negative zero is zero. An object is the list of its own properties in insertion order; a
  lookup takes the first entry of a name.
\<close>

datatype jsnum = Fin real | PosInf | NegInf | NaN

datatype jsval =
    JUndefined
  | JNull
  | JBool bool
  | JNum jsnum
  | JStr string
  | JArr "jsval list"
  | JObj "(string \<times> jsval) list"

text \<open>Relational operators on numbers: any comparison with NaN is false.\<close>

fun num_lt :: "jsnum \<Rightarrow> jsnum \<Rightarrow> bool" where
  "num_lt (Fin a) (Fin b) = (a < b)"
| "num_lt (Fin a) PosInf = True"
| "num_lt NegInf (Fin b) = True"
| "num_lt NegInf PosInf = True"
| "num_lt _ _ = False"

definition num_eq :: "jsnum \<Rightarrow> jsnum \<Rightarrow> bool" where
  "num_eq a b = (a = b \<and> a \<noteq> NaN)"

definition num_le :: "jsnum \<Rightarrow> jsnum \<Rightarrow> bool" where
  "num_le a b = (num_lt a b \<or> num_eq a b)"

definition num_gt :: "jsnum \<Rightarrow> jsnum \<Rightarrow> bool" where
  "num_gt a b = num_lt b a"

fun num_sub :: "jsnum \<Rightarrow> jsnum \<Rightarrow> jsnum" where
  "num_sub (Fin a) (Fin b) = Fin (a - b)"
| "num_sub PosInf (Fin b) = PosInf"
| "num_sub NegInf (Fin b) = NegInf"
| "num_sub (Fin a) PosInf = NegInf"
| "num_sub (Fin a) NegInf = PosInf"
| "num_sub PosInf NegInf = PosInf"
| "num_sub NegInf PosInf = NegInf"
| "num_sub _ _ = NaN"

definition isNaN :: "jsnum \<Rightarrow> bool" where
  "isNaN n = (n = NaN)"

text \<open>ToBoolean: the falsy values are undefined, null, false, 0, NaN and the empty string.\<close>

fun truthy :: "jsval \<Rightarrow> bool" where
  "truthy JUndefined = False"
| "truthy JNull = False"
| "truthy (JBool b) = b"
| "truthy (JNum n) = (n \<noteq> Fin 0 \<and> n \<noteq> NaN)"
| "truthy (JStr s) = (s \<noteq> [])"
| "truthy (JArr _) = True"
| "truthy (JObj _) = True"

definition nullish :: "jsval \<Rightarrow> bool" where
  \<comment> \<open>\<open>v == null\<close>\<close>
  "nullish v = (v = JUndefined \<or> v = JNull)"

definition nullish_or :: "jsval \<Rightarrow> jsval \<Rightarrow> jsval" where
  \<comment> \<open>\<open>a ?? b\<close>\<close>
  "nullish_or a b = (if nullish a then b else a)"

definition js_or :: "jsval \<Rightarrow> jsval \<Rightarrow> jsval" where
  \<comment> \<open>\<open>a || b\<close>\<close>
  "js_or a b = (if truthy a then a else b)"

text \<open>
  Property read \<open>v.name\<close> for the property names the code uses (none of them is defined on
  the prototypes of strings, numbers, booleans or arrays). On undefined and null a plain read
  throws; the callers below guard it or read with \<open>?.\<close>, which gives undefined.
\<close>

fun get_prop :: "jsval \<Rightarrow> string \<Rightarrow> jsval" where
  "get_prop (JObj kvs) k = (case map_of kvs k of Some v \<Rightarrow> v | None \<Rightarrow> JUndefined)"
| "get_prop _ k = JUndefined"

definition has_own :: "(string \<times> jsval) list \<Rightarrow> string \<Rightarrow> bool" where
  "has_own kvs k = (map_of kvs k \<noteq> None)"

text \<open>Strict equality \<open>===\<close>. Two arrays or objects obtained from different parses are different references.\<close>

fun strict_eq :: "jsval \<Rightarrow> jsval \<Rightarrow> bool" where
  "strict_eq JUndefined JUndefined = True"
| "strict_eq JNull JNull = True"
| "strict_eq (JBool a) (JBool b) = (a = b)"
| "strict_eq (JNum a) (JNum b) = num_eq a b"
| "strict_eq (JStr a) (JStr b) = (a = b)"
| "strict_eq _ _ = False"

definition typeof_number :: "jsval \<Rightarrow> bool" where
  \<comment> \<open>\<open>typeof v === 'number'\<close>\<close>
  "typeof_number v = (case v of JNum _ \<Rightarrow> True | _ \<Rightarrow> False)"



section \<open>types.ts\<close>

datatype QuestionType = SINGLE_CHOICE | MULTI_CHOICE | TEXT | IMAGE_UPLOAD

text \<open>\<open>correct_answers?: string | string[]\<close>\<close>

datatype answer_key = KeyAbsent | KeyString string | KeyList "string list"

record Question =
  q_id :: string
  title :: string
  description :: "string option"
  complexity :: string
  qtype :: QuestionType
  options :: "string list option"
  correct_answers :: answer_key
  max_score :: jsnum
  tags :: "string list option"

datatype session_status = in_progress | submitted

record StudentExamSession =
  examId :: string
  studentId :: string
  startTime :: jsnum
  answers :: "(string \<times> jsval) list"
  remainingSeconds :: jsnum
  status :: session_status
  score :: "jsnum option"
  questionScores :: "(string \<times> jsnum) list option"

definition status_string :: "session_status \<Rightarrow> string" where
  "status_string s = (case s of in_progress \<Rightarrow> ''in_progress'' | submitted \<Rightarrow> ''submitted'')"

text \<open>
  The session as the object it is at run time, with the properties of the interface: an
  absent optional field is no property. (\<open>startExamSession\<close> also attaches the server's
  \<open>questions\<close>, which nothing modelled here reads.)
\<close>

definition session_object :: "StudentExamSession \<Rightarrow> (string \<times> jsval) list" where
  "session_object s =
     [(''examId'', JStr (examId s)),
      (''studentId'', JStr (studentId s)),
      (''startTime'', JNum (startTime s)),
      (''answers'', JObj (answers s)),
      (''remainingSeconds'', JNum (remainingSeconds s)),
      (''status'', JStr (status_string (status s)))]
     @ (case score s of None \<Rightarrow> [] | Some n \<Rightarrow> [(''score'', JNum n)])
     @ (case questionScores s of None \<Rightarrow> []
        | Some qs \<Rightarrow> [(''questionScores'', JObj (map (\<lambda>(k, n). (k, JNum n)) qs))])"

section \<open>Platform: errors, JSON text, localStorage, effects\<close>

text \<open>
  Thrown values: \<open>new Error(message)\<close>, a rejected axios call with the body of the server's
  answer (undefined when there was none) and a message, and the platform's own errors.
\<close>

datatype error =
    Error string
  | AxiosError jsval string
  | TypeError
  | SyntaxError
  | QuotaExceededError
  | InvalidCharacterError

text \<open>
  What \<open>JSON.stringify\<close> writes of a value: a property whose value is undefined is dropped;
  an undefined array element, NaN and the infinities are written as null.
\<close>

fun jsonify :: "jsval \<Rightarrow> jsval" and jsonify_props :: "(string \<times> jsval) list \<Rightarrow> (string \<times> jsval) list"
  and jsonify_elems :: "jsval list \<Rightarrow> jsval list" where
  "jsonify (JNum n) = (case n of Fin r \<Rightarrow> JNum (Fin r) | _ \<Rightarrow> JNull)"
| "jsonify (JArr xs) = JArr (jsonify_elems xs)"
| "jsonify (JObj kvs) = JObj (jsonify_props kvs)"
| "jsonify v = v"
| "jsonify_props [] = []"
| "jsonify_props ((k, v) # kvs) =
     (if v = JUndefined then jsonify_props kvs else (k, jsonify v) # jsonify_props kvs)"
| "jsonify_elems [] = []"
| "jsonify_elems (x # xs) = (if x = JUndefined then JNull else jsonify x) # jsonify_elems xs"

text \<open>
  What a JSON text can parse to: no undefined and no NaN anywhere in it. (An infinity is
  what \<open>JSON.parse\<close> makes of a numeral too large for a double.)
\<close>

fun json_value :: "jsval \<Rightarrow> bool" and json_props :: "(string \<times> jsval) list \<Rightarrow> bool"
  and json_elems :: "jsval list \<Rightarrow> bool" where
  "json_value JUndefined = False"
| "json_value (JNum n) = (n \<noteq> NaN)"
| "json_value (JArr xs) = json_elems xs"
| "json_value (JObj kvs) = json_props kvs"
| "json_value v = True"
| "json_props [] = True"
| "json_props ((k, v) # kvs) = (json_value v \<and> json_props kvs)"
| "json_elems [] = True"
| "json_elems (x # xs) = (json_value x \<and> json_elems xs)"

text \<open>
  The layout of JSON text is not modelled. A stored text is either a JSON text, represented
  by the value it parses to, or some other string, which does not parse (nor does
  \<open>JsonText v\<close> for a \<open>v\<close> that no JSON text parses to). Undefined has no JSON text:
  \<open>JSON.stringify\<close> returns undefined for it, which the store keeps as the string
  \<open>undefined\<close>.
\<close>

datatype json_text = JsonText jsval | OtherText string

definition JSON_stringify :: "jsval \<Rightarrow> json_text" where
  "JSON_stringify v = (if v = JUndefined then OtherText ''undefined'' else JsonText (jsonify v))"

definition JSON_parse :: "json_text \<Rightarrow> error + jsval" where
  "JSON_parse t =
     (case t of
        JsonText v \<Rightarrow> if json_value v then Inr v else Inl SyntaxError
      | OtherText s \<Rightarrow> Inl SyntaxError)"

definition text_truthy :: "json_text \<Rightarrow> bool" where
  \<comment> \<open>\<open>if (raw)\<close> on a string: a JSON text is never empty\<close>
  "text_truthy t = (case t of JsonText v \<Rightarrow> True | OtherText s \<Rightarrow> s \<noteq> [])"

datatype event =
    Alert string
  | Confirm string
  | Navigate string
  | ConsoleLog
  | ConsoleError
  | HttpPut string jsval
  | HttpPost string jsval
  | UpdateSessionScore string string string jsnum
  | StorageSet string json_text
  | StorageRemove string

text \<open>The browser as the code sees it: the local store and the effects so far, oldest first.\<close>

record world =
  localStorage :: "string \<rightharpoonup> json_text"
  trace :: "event list"

definition emit :: "event \<Rightarrow> world \<Rightarrow> world" where
  "emit e w = w\<lparr>trace := trace w @ [e]\<rparr>"

text \<open>
  \<open>localStorage.setItem\<close> throws when the quota is exhausted; \<open>writable\<close> says whether it is
  not. \<open>getItem\<close> and \<open>removeItem\<close> do not throw. A write and a removal are also recorded as
  events, so that their order relative to the requests can be read off the trace.
\<close>

definition setItem :: "bool \<Rightarrow> string \<Rightarrow> json_text \<Rightarrow> world \<Rightarrow> error + world" where
  "setItem writable key v w =
     (if writable then Inr (emit (StorageSet key v) (w\<lparr>localStorage := (localStorage w)(key \<mapsto> v)\<rparr>))
      else Inl QuotaExceededError)"

definition removeItem :: "string \<Rightarrow> world \<Rightarrow> world" where
  "removeItem key w = emit (StorageRemove key) (w\<lparr>localStorage := (localStorage w)(key := None)\<rparr>)"

definition getItem :: "world \<Rightarrow> string \<Rightarrow> json_text option" where
  "getItem w key = localStorage w key"

text \<open>
  What the code cannot decide: whether the store accepts a write, what the server answers to
  a request (its body, or a rejection), what the user answers to \<open>window.confirm\<close>, the clock,
  the time value of \<open>new Date(x)\<close>, what \<open>atob\<close> decodes a string to (or that it throws), and
  the platform's conversions between numbers and strings: the digits it prints for a number
  that is not a whole number of at most \<open>2\<^sup>5\<^sup>3\<close>, and the number it reads from a string.
\<close>

record env =
  storage_writable :: bool
  http_put :: "string \<Rightarrow> jsval \<Rightarrow> error + jsval"
  http_post :: "string \<Rightarrow> jsval \<Rightarrow> error + jsval"
  confirm_answer :: bool
  Date_now :: real
  Date_getTime :: "jsval \<Rightarrow> jsnum"
  atob :: "string \<Rightarrow> error + json_text"
  NumberToString :: "real \<Rightarrow> string"
  StringToNumber :: "string \<Rightarrow> jsnum"

text \<open>Decimal digits of a whole number, for \<open>String(n)\<close> and template literals.\<close>

definition digit_char :: "nat \<Rightarrow> char" where
  "digit_char d = ''0123456789'' ! (d mod 10)"

fun nat_to_string :: "nat \<Rightarrow> string" where
  "nat_to_string n =
     (if n < 10 then [digit_char n] else nat_to_string (n div 10) @ [digit_char (n mod 10)])"

declare nat_to_string.simps [simp del]

definition safe_integer :: "real \<Rightarrow> bool" where
  "safe_integer r = (r = of_int \<lfloor>r\<rfloor> \<and> \<bar>r\<bar> \<le> 9007199254740992)"

definition num_to_string :: "env \<Rightarrow> jsnum \<Rightarrow> string" where
  "num_to_string E n =
     (case n of
        NaN \<Rightarrow> ''NaN''
      | PosInf \<Rightarrow> ''Infinity''
      | NegInf \<Rightarrow> ''-Infinity''
      | Fin r \<Rightarrow>
          if safe_integer r
          then (if r < 0 then CHR ''-'' # nat_to_string (nat (- \<lfloor>r\<rfloor>)) else nat_to_string (nat \<lfloor>r\<rfloor>))
          else NumberToString E r)"

fun join_with :: "string \<Rightarrow> string list \<Rightarrow> string" where
  "join_with sep [] = []"
| "join_with sep [s] = s"
| "join_with sep (s # t # ss) = s @ sep @ join_with sep (t # ss)"

text \<open>
  \<open>String(v)\<close>. An array joins its elements with commas, null and undefined elements as the
  empty string. An object that was parsed from JSON inherits \<open>toString\<close>, which gives
  \<open>[object Object]\<close>, unless it has a property of that name of its own: such a property is
  never a function, and the conversion throws a TypeError.
\<close>

fun js_String :: "env \<Rightarrow> jsval \<Rightarrow> error + string"
  and js_String_elems :: "env \<Rightarrow> jsval list \<Rightarrow> error + string list" where
  "js_String E JUndefined = Inr ''undefined''"
| "js_String E JNull = Inr ''null''"
| "js_String E (JBool b) = Inr (if b then ''true'' else ''false'')"
| "js_String E (JNum n) = Inr (num_to_string E n)"
| "js_String E (JStr s) = Inr s"
| "js_String E (JArr xs) =
     (case js_String_elems E xs of Inl e \<Rightarrow> Inl e | Inr parts \<Rightarrow> Inr (join_with '','' parts))"
| "js_String E (JObj kvs) = (if has_own kvs ''toString'' then Inl TypeError else Inr ''[object Object]'')"
| "js_String_elems E [] = Inr []"
| "js_String_elems E (x # xs) =
     (case (if x = JUndefined \<or> x = JNull then Inr [] else js_String E x) of
        Inl e \<Rightarrow> Inl e
      | Inr s \<Rightarrow> (case js_String_elems E xs of Inl e \<Rightarrow> Inl e | Inr ss \<Rightarrow> Inr (s # ss)))"

text \<open>
  ToNumber of the operand of a comparison with a number. An array is converted through its
  string; an object without a \<open>toString\<close> of its own through \<open>[object Object]\<close>, which is
  not a numeral.
\<close>

definition js_ToNumber :: "env \<Rightarrow> jsval \<Rightarrow> error + jsnum" where
  "js_ToNumber E v =
     (case v of
        JUndefined \<Rightarrow> Inr NaN
      | JNull \<Rightarrow> Inr (Fin 0)
      | JBool b \<Rightarrow> Inr (Fin (if b then 1 else 0))
      | JNum n \<Rightarrow> Inr n
      | JStr s \<Rightarrow> Inr (StringToNumber E s)
      | JArr xs \<Rightarrow> (case js_String E v of Inl e \<Rightarrow> Inl e | Inr s \<Rightarrow> Inr (StringToNumber E s))
      | JObj kvs \<Rightarrow> if has_own kvs ''toString'' then Inl TypeError else Inr NaN)"

definition js_gt :: "env \<Rightarrow> jsval \<Rightarrow> jsnum \<Rightarrow> error + bool" where
  \<comment> \<open>\<open>v > n\<close> for a number \<open>n\<close>\<close>
  "js_gt E v n = (case js_ToNumber E v of Inl e \<Rightarrow> Inl e | Inr m \<Rightarrow> Inr (num_gt m n))"

text \<open>
  An asynchronous function runs against the world and either returns a value or throws
  (rejects): \<open>Inl\<close> is the thrown error.
\<close>

type_synonym 'a io = "world \<Rightarrow> world \<times> (error + 'a)"

definition ret :: "'a \<Rightarrow> 'a io" where
  "ret x w = (w, Inr x)"

definition throw :: "error \<Rightarrow> 'a io" where
  "throw e w = (w, Inl e)"

definition bind :: "'a io \<Rightarrow> ('a \<Rightarrow> 'b io) \<Rightarrow> 'b io" where
  "bind m f w = (case m w of (w', Inl e) \<Rightarrow> (w', Inl e) | (w', Inr x) \<Rightarrow> f x w')"

definition try_catch :: "'a io \<Rightarrow> (error \<Rightarrow> 'a io) \<Rightarrow> 'a io" where
  "try_catch body handler w = (case body w of (w', Inl e) \<Rightarrow> handler e w' | (w', Inr x) \<Rightarrow> (w', Inr x))"

definition effect :: "event \<Rightarrow> unit io" where
  "effect e w = (emit e w, Inr ())"

definition localStorage_setItem :: "env \<Rightarrow> string \<Rightarrow> json_text \<Rightarrow> unit io" where
  "localStorage_setItem E key v w =
     (case setItem (storage_writable E) key v w of Inl e \<Rightarrow> (w, Inl e) | Inr w' \<Rightarrow> (w', Inr ()))"

definition localStorage_removeItem :: "string \<Rightarrow> unit io" where
  "localStorage_removeItem key w = (removeItem key w, Inr ())"

definition axios_put :: "env \<Rightarrow> string \<Rightarrow> jsval \<Rightarrow> jsval io" where
  "axios_put E url payload w = (emit (HttpPut url payload) w, http_put E url payload)"

definition axios_post :: "env \<Rightarrow> string \<Rightarrow> jsval \<Rightarrow> jsval io" where
  "axios_post E url payload w = (emit (HttpPost url payload) w, http_post E url payload)"

text \<open>
  \<open>err?.response?.data?.detail || err?.response?.data || err?.message || fallback\<close>, the
  message of the error the API functions rethrow.
\<close>

definition error_detail :: "error \<Rightarrow> string \<Rightarrow> jsval" where
  "error_detail err fallback =
     (case err of
        AxiosError data msg \<Rightarrow>
          js_or (js_or (js_or (get_prop data ''detail'') data) (JStr msg)) (JStr fallback)
      | Error msg \<Rightarrow> js_or (JStr msg) (JStr fallback)
      \<comment> \<open>a platform error has a message of its own; the model takes its name\<close>
      | TypeError \<Rightarrow> JStr ''TypeError''
      | SyntaxError \<Rightarrow> JStr ''SyntaxError''
      | QuotaExceededError \<Rightarrow> JStr ''QuotaExceededError''
      | InvalidCharacterError \<Rightarrow> JStr ''InvalidCharacterError'')"

text \<open>\<open>new Error(detail)\<close>: the message is \<open>String(detail)\<close>, and the conversion can throw.\<close>

definition new_Error :: "env \<Rightarrow> jsval \<Rightarrow> error" where
  "new_Error E detail = (case js_String E detail of Inl e \<Rightarrow> e | Inr m \<Rightarrow> Error m)"

section \<open>services/api.ts\<close>

text \<open>
  The request headers (\<open>getAuthHeaders\<close>, which catches its own errors) and the console
  arguments do not influence any result below and are left out of the events.
\<close>

definition decodeTokenLocal :: "env \<Rightarrow> string \<Rightarrow> jsval" where
  \<comment> \<open>\<open>try { return JSON.parse(atob(token)) } catch { return null }\<close>\<close>
  "decodeTokenLocal E token =
     (case atob E token of
        Inl e \<Rightarrow> JNull
      | Inr t \<Rightarrow> (case JSON_parse t of Inl e \<Rightarrow> JNull | Inr v \<Rightarrow> v))"

text \<open>
  \<open>getCurrentUser\<close>: \<open>backend\<close> is the outcome of \<open>GET /users/me\<close>. The result is null or
  the user object. In the fallback \<open>decoded\<close> is truthy where its properties are read; the
  three \<open>String\<close> conversions run in the order id, name, email, and when one throws the
  inner \<open>catch\<close> returns null.
\<close>

definition getCurrentUser :: "env \<Rightarrow> (error + jsval) \<Rightarrow> string \<Rightarrow> jsval" where
  "getCurrentUser E backend token =
     (if token = [] then JNull
      else case backend of
        Inr data \<Rightarrow> data
      | Inl err \<Rightarrow>
          (let decoded = decodeTokenLocal E token in
           if \<not> truthy decoded then JNull
           else
             (case js_String E (js_or (js_or (get_prop decoded ''id'') (get_prop decoded ''user_id'')) (JStr [])) of
                Inl e \<Rightarrow> JNull
              | Inr id' \<Rightarrow>
             (case js_String E (js_or (js_or (js_or (get_prop decoded ''name'') (get_prop decoded ''full_name''))
                                  (get_prop decoded ''username'')) (JStr [])) of
                Inl e \<Rightarrow> JNull
              | Inr name' \<Rightarrow>
             (case js_String E (js_or (get_prop decoded ''email'') (JStr [])) of
                Inl e \<Rightarrow> JNull
              | Inr email' \<Rightarrow>
                  JObj [(''id'', JStr id'), (''name'', JStr name'), (''email'', JStr email'),
                        (''role'', JStr (if strict_eq (get_prop decoded ''role'') (JStr ''admin'')
                                         then ''admin'' else ''student''))])))))"

text \<open>
  \<open>saveExamProgress\<close>. With the session typed as declared, \<open>session.answers || {}\<close> and
  \<open>session.remainingSeconds ?? 0\<close> are the fields themselves. The payload is recorded in the
  request as the object handed to axios.
\<close>

definition saveExamProgress :: "env \<Rightarrow> StudentExamSession \<Rightarrow> unit io" where
  "saveExamProgress E session =
     try_catch
       (let payload = JObj [(''answers'', JObj (answers session)),
                            (''remaining_seconds'', JNum (remainingSeconds session))] in
        bind (try_catch
                (localStorage_setItem E (''exam_session_'' @ examId session @ ''_'' @ studentId session)
                   (JSON_stringify (JObj (session_object session))))
                (\<lambda>e. ret ()))
          (\<lambda>_. bind (effect ConsoleLog)
          (\<lambda>_. bind (axios_put E (''/api/exams/'' @ examId session @ ''/session'') payload)
          (\<lambda>_. ret ()))))
       (\<lambda>err. bind (effect ConsoleError) (\<lambda>_. ret ()))"

text \<open>
  \<open>new Date(v).getTime()\<close> for a value of the response: the constructor converts an object
  or an array to a primitive first, which throws where \<open>String\<close> does.
\<close>

definition new_Date_getTime :: "env \<Rightarrow> jsval \<Rightarrow> error + jsnum" where
  "new_Date_getTime E v = (case js_String E v of Inl e \<Rightarrow> Inl e | Inr s \<Rightarrow> Inr (Date_getTime E v))"

text \<open>
  \<open>submitExam\<close>. The local entry is removed as soon as the request has succeeded. The
  returned object is then built from the response body by plain property reads, so a body
  that is null or undefined throws after the removal, and so does a \<open>start_time\<close> that has no
  primitive value; the outer \<open>catch\<close> rethrows every error as \<open>new Error(detail)\<close>.
\<close>

definition submitExam :: "env \<Rightarrow> StudentExamSession \<Rightarrow> jsval io" where
  "submitExam E session =
     try_catch
       (let payload = JObj [(''answers'', JObj (answers session))] in
        bind (axios_post E (''/api/exams/'' @ examId session @ ''/submit'') payload)
          (\<lambda>data. bind (try_catch
                          (localStorage_removeItem (''exam_session_'' @ examId session @ ''_'' @ studentId session))
                          (\<lambda>e. ret ()))
          (\<lambda>_. if nullish data then throw TypeError
               else
                 (case (if truthy (get_prop data ''start_time'')
                        then new_Date_getTime E (get_prop data ''start_time'')
                        else Inr (if truthy (JNum (startTime session)) then startTime session
                                  else Fin (Date_now E))) of
                    Inl e \<Rightarrow> throw e
                  | Inr start \<Rightarrow>
                 ret (JObj
                 [(''examId'', js_or (js_or (get_prop data ''exam_id'') (get_prop data ''examId''))
                                 (JStr (examId session))),
                  (''studentId'', js_or (js_or (get_prop data ''student_id'') (get_prop data ''studentId''))
                                 (JStr (studentId session))),
                  (''startTime'', JNum start),
                  (''answers'', js_or (js_or (get_prop data ''answers'') (JObj (answers session))) (JObj [])),
                  (''remainingSeconds'', nullish_or (get_prop data ''remaining_seconds'') (JNum (Fin 0))),
                  (''status'', js_or (get_prop data ''status'') (JStr ''submitted'')),
                  (''score'',
                     (if typeof_number (get_prop data ''score'') then get_prop data ''score''
                      else (case score session of None \<Rightarrow> JUndefined | Some n \<Rightarrow> JNum n))),
                  (''questionScores'',
                     js_or (js_or (get_prop data ''question_scores'')
                        (case questionScores session of None \<Rightarrow> JUndefined
                         | Some qs \<Rightarrow> JObj (map (\<lambda>(k, n). (k, JNum n)) qs)))
                       (JObj []))])))))
       (\<lambda>err. throw (new_Error E (error_detail err ''Failed to submit session to backend'')))"

section \<open>pages/StudentDashboard.tsx\<close>

datatype label = Resumable | Submitted

text \<open>The \<open>reason\<close> variable of the per-exam check, by its \<open>source\<close> and flags.\<close>

datatype reason =
    NoReason
  | ServerInvalid
  | ServerSession
  | LocalSession
  | LocalInvalid
  | LocalNotFound
  | LocalError

text \<open>
  The two helpers return a boolean or throw, which they do where a \<open>String\<close> conversion of
  an id throws. \<open>a === b && c === d\<close> does not evaluate \<open>c\<close> and \<open>d\<close> when the first
  comparison is false. The exam's id and the user's id are strings, as declared.
\<close>

definition isServerSessionValid :: "env \<Rightarrow> jsval \<Rightarrow> string \<Rightarrow> string \<Rightarrow> error + bool" where
  "isServerSessionValid E sess examId' userId =
     (if \<not> truthy sess then Inr False
      else
        let sessExamId = nullish_or (nullish_or (get_prop sess ''examId'') (get_prop sess ''exam_id'')) JNull;
            sessStudentId = nullish_or (nullish_or (get_prop sess ''studentId'') (get_prop sess ''student_id'')) JNull
        in if nullish sessExamId \<or> nullish sessStudentId then Inr False
           else (case js_String E sessExamId of
                   Inl err \<Rightarrow> Inl err
                 | Inr a \<Rightarrow>
                     if a \<noteq> examId' then Inr False
                     else (case js_String E sessStudentId of
                             Inl err \<Rightarrow> Inl err
                           | Inr b \<Rightarrow> Inr (b = userId))))"

definition the_number :: "jsval \<Rightarrow> jsnum" where
  \<comment> \<open>the operand of a comparison behind a \<open>typeof v === 'number'\<close> guard\<close>
  "the_number v = (case v of JNum n \<Rightarrow> n | _ \<Rightarrow> NaN)"

text \<open>
  \<open>now\<close> is the clock reading, \<open>end\<close> the time value of \<open>new Date(e.end_time)\<close>, NaN for an
  invalid date (\<open>end_time\<close> is a string, as declared, so the constructor does not throw).
\<close>

definition isLocalSessionResumable ::
  "env \<Rightarrow> jsval \<Rightarrow> string \<Rightarrow> string \<Rightarrow> real \<Rightarrow> jsnum \<Rightarrow> error + bool" where
  "isLocalSessionResumable E localSess examId' userId now end' =
     (if \<not> truthy localSess then Inr False
      else
        let sessExamId = nullish_or (nullish_or (get_prop localSess ''examId'') (get_prop localSess ''exam_id'')) JNull;
            sessStudentId = nullish_or (nullish_or (nullish_or (get_prop localSess ''studentId'')
                              (get_prop localSess ''student_id'')) (get_prop localSess ''student'')) JNull
        in if nullish sessExamId \<or> nullish sessStudentId then Inr False
           else
             let remaining = nullish_or (nullish_or (get_prop localSess ''remainingSeconds'')
                               (get_prop localSess ''remaining_seconds'')) (JNum (Fin 0));
                 status' = nullish_or (get_prop localSess ''status'') (JStr ''in_progress'');
                 start = nullish_or (nullish_or (get_prop localSess ''startTime'')
                               (get_prop localSess ''start_time'')) (JNum (Fin 0))
             in if strict_eq status' (JStr ''submitted'') then Inr False
                else if \<not> typeof_number remaining \<or> num_le (the_number remaining) (Fin 0) then Inr False
                else if \<not> (truthy start \<and> typeof_number start \<and> num_gt (the_number start) (Fin 0))
                     then Inr False
                else if num_gt (Fin now) end' then Inr False
                else (case js_String E sessExamId of
                        Inl err \<Rightarrow> Inl err
                      | Inr a \<Rightarrow>
                          if a \<noteq> examId' then Inr False
                          else (case js_String E sessStudentId of
                                  Inl err \<Rightarrow> Inl err
                                | Inr b \<Rightarrow> if b \<noteq> userId then Inr False else Inr True)))"

text \<open>
  The index of the student's results by exam id (an object without prototype): a record
  without ids or of another student is skipped, and so is one whose id throws when
  converted; a later record of the same exam replaces an earlier one.
\<close>

fun resultsMap_of :: "env \<Rightarrow> string \<Rightarrow> jsval list \<Rightarrow> (string \<rightharpoonup> jsval) \<Rightarrow> (string \<rightharpoonup> jsval)" where
  "resultsMap_of E userId [] m = m"
| "resultsMap_of E userId (r # rs) m =
     (let rid = nullish_or (nullish_or (get_prop r ''examId'') (get_prop r ''exam_id'')) JNull;
          rStudent = nullish_or (nullish_or (get_prop r ''studentId'') (get_prop r ''student_id'')) JNull
      in resultsMap_of E userId rs
           (if \<not> nullish rid \<and> \<not> nullish rStudent then
              (case js_String E rStudent of
                 Inl err \<Rightarrow> m
               | Inr s \<Rightarrow>
                   if s = userId
                   then (case js_String E rid of Inl err \<Rightarrow> m | Inr k \<Rightarrow> m(k \<mapsto> r))
                   else m)
            else m))"

text \<open>
  The fallback on the locally stored session, with its \<open>catch\<close>: a text that does not parse
  and an id that throws when converted both end as a local error, without a label.
\<close>

definition localFallback ::
  "env \<Rightarrow> world \<Rightarrow> string \<Rightarrow> string \<Rightarrow> real \<Rightarrow> jsnum \<Rightarrow> label option \<times> reason" where
  "localFallback E w examId' userId now end' =
     (case getItem w (''exam_session_'' @ examId' @ ''_'' @ userId) of
        None \<Rightarrow> (None, LocalNotFound)
      | Some raw \<Rightarrow>
          if \<not> text_truthy raw then (None, LocalNotFound)
          else (case JSON_parse raw of
                  Inl err \<Rightarrow> (None, LocalError)
                | Inr localSess \<Rightarrow>
                    (case isLocalSessionResumable E localSess examId' userId now end' of
                       Inl err \<Rightarrow> (None, LocalError)
                     | Inr ok \<Rightarrow> if ok then (Some Resumable, LocalSession) else (None, LocalInvalid))))"

text \<open>
  The body of the outer \<open>try\<close> of one round of the loop over the exams: the label written
  to the status map under the exam's id (none when nothing is written) and the reason, or
  the error thrown. It throws where a \<open>String\<close> conversion or the comparison
  \<open>(sess.remainingSeconds ?? 0) > 0\<close> does; nothing is written to the map before.
\<close>

definition examStatusTry ::
  "env \<Rightarrow> world \<Rightarrow> (string \<rightharpoonup> jsval) \<Rightarrow> string \<Rightarrow> string \<Rightarrow> real \<Rightarrow> jsnum \<Rightarrow>
   error + (label option \<times> reason)" where
  "examStatusTry E w resultsMap examId' userId now end' =
     (let sess = (case resultsMap examId' of None \<Rightarrow> JNull | Some r \<Rightarrow> nullish_or r JNull) in
      case (if truthy sess then isServerSessionValid E sess examId' userId else Inr False) of
        Inl err \<Rightarrow> Inl err
      | Inr valid \<Rightarrow>
          if valid then
            (let sessStudentId = nullish_or (nullish_or (get_prop sess ''studentId'') (get_prop sess ''student_id'')) JNull in
             (case js_String E sessStudentId of
                Inl err \<Rightarrow> Inl err
              | Inr sid \<Rightarrow>
                  if sid \<noteq> userId then Inr (None, ServerInvalid)
                  else if strict_eq (get_prop sess ''status'') (JStr ''submitted'')
                       then Inr (Some Submitted, ServerSession)
                  else (case js_gt E (nullish_or (get_prop sess ''remainingSeconds'') (JNum (Fin 0))) (Fin 0) of
                          Inl err \<Rightarrow> Inl err
                        | Inr timeRemains \<Rightarrow>
                            if timeRemains \<and> num_le (Fin now) end' then Inr (Some Resumable, ServerSession)
                            else Inr (None, NoReason))))
          else Inr (localFallback E w examId' userId now end'))"

text \<open>
  One round of the loop. The outer \<open>catch\<close> repeats the local fallback with a clock reading
  of its own, \<open>later\<close>.
\<close>

definition examStatusCheck ::
  "env \<Rightarrow> world \<Rightarrow> (string \<rightharpoonup> jsval) \<Rightarrow> string \<Rightarrow> string \<Rightarrow> real \<Rightarrow> real \<Rightarrow> jsnum \<Rightarrow>
   label option \<times> reason" where
  "examStatusCheck E w resultsMap examId' userId now later end' =
     (case examStatusTry E w resultsMap examId' userId now end' of
        Inr outcome \<Rightarrow> outcome
      | Inl err \<Rightarrow> localFallback E w examId' userId later end')"

section \<open>pages/ExamRunner.tsx\<close>

text \<open>
  The component's state and props. \<open>timer\<close> says whether the one-second interval is set,
  \<open>saveTimeout\<close> whether a debounced save is pending.
\<close>

record runner =
  session :: "StudentExamSession option"
  loading :: bool
  timeLeft :: jsnum
  saving :: bool
  timer :: bool
  saveTimeout :: bool

record runner_props =
  route_examId :: "string option"
  currentUser_id :: string

definition param_string :: "string option \<Rightarrow> string" where
  \<comment> \<open>a route parameter inside a template literal\<close>
  "param_string p = (case p of None \<Rightarrow> ''undefined'' | Some s \<Rightarrow> s)"

text \<open>The initial state of the hooks.\<close>

definition initial_runner :: runner where
  "initial_runner =
     \<lparr>session = None, loading = True, timeLeft = Fin 0, saving = False, timer = False, saveTimeout = False\<rparr>"

text \<open>The end of \<open>initializeExam\<close>, once the session and the questions are fetched.\<close>

definition session_loaded :: "StudentExamSession \<Rightarrow> runner \<Rightarrow> runner" where
  "session_loaded sess st = st\<lparr>session := Some sess, timeLeft := remainingSeconds sess, loading := False\<rparr>"

text \<open>The timer effect, run when \<open>session?.status\<close> changes: it sets the interval unless there is no session or it is submitted.\<close>

definition timer_effect :: "runner \<Rightarrow> runner" where
  "timer_effect st =
     (case session st of
        None \<Rightarrow> st\<lparr>timer := False\<rparr>
      | Some s \<Rightarrow> if status s = submitted then st\<lparr>timer := False\<rparr> else st\<lparr>timer := True\<rparr>)"

text \<open>One firing of the interval: \<open>setTimeLeft(prev => ...)\<close>.\<close>

definition tick :: "runner \<Rightarrow> runner" where
  "tick st =
     (if \<not> timer st then st
      else if num_le (timeLeft st) (Fin 0) then st\<lparr>timer := False, timeLeft := Fin 0\<rparr>
      else st\<lparr>timeLeft := num_sub (timeLeft st) (Fin 1)\<rparr>)"

definition confirm_message :: string where
  "confirm_message = ''Are you sure you want to submit? You cannot change answers after submission.''"

definition handleFinishExam :: "env \<Rightarrow> runner_props \<Rightarrow> bool \<Rightarrow> runner \<times> world \<Rightarrow> runner \<times> world" where
  "handleFinishExam E props manual sw =
     (case sw of (st, w) \<Rightarrow>
      (case session st of
         None \<Rightarrow> (st, w)
       | Some sess \<Rightarrow>
           if loading st then (st, w)
           else
             let w1 = (if manual then emit (Confirm confirm_message) w else w) in
             if manual \<and> \<not> confirm_answer E then (st, w1)
             else
               let st1 = st\<lparr>loading := True, saving := False, saveTimeout := False\<rparr> in
               (case submitExam E (sess\<lparr>remainingSeconds := timeLeft st\<rparr>) w1 of
                  (w2, Inr result) \<Rightarrow>
                    (st1, emit (Navigate (''/result/'' @ param_string (route_examId props) @ ''/''
                                           @ currentUser_id props)) w2)
                | (w2, Inl err) \<Rightarrow>
                    (st1\<lparr>loading := False\<rparr>,
                     emit (Alert ''Failed to submit exam. Please try again.'') (emit ConsoleError w2)))))"

text \<open>The auto-submit watcher, run when \<open>timeLeft\<close>, \<open>session\<close> or \<open>loading\<close> changes.\<close>

definition auto_submit_fires :: "runner \<Rightarrow> bool" where
  "auto_submit_fires st =
     (timeLeft st = Fin 0 \<and>
      (case session st of
         None \<Rightarrow> False
       | Some s \<Rightarrow> status s \<noteq> submitted \<and> \<not> loading st \<and> num_gt (startTime s) (Fin 0)))"

definition auto_submit_watcher :: "env \<Rightarrow> runner_props \<Rightarrow> runner \<times> world \<Rightarrow> runner \<times> world" where
  "auto_submit_watcher E props sw =
     (if auto_submit_fires (fst sw) then handleFinishExam E props False sw else sw)"

text \<open>The click on "Finish Exam".\<close>

definition finish_button :: "env \<Rightarrow> runner_props \<Rightarrow> runner \<times> world \<Rightarrow> runner \<times> world" where
  "finish_button E props sw = handleFinishExam E props True sw"

text \<open>The countdown of a freshly loaded session after \<open>n\<close> firings of the interval.\<close>

definition countdown :: "StudentExamSession \<Rightarrow> nat \<Rightarrow> runner" where
  "countdown sess n = (tick ^^ n) (timer_effect (session_loaded sess initial_runner))"

section \<open>pages/ResultDetails.tsx\<close>


text \<open>
  The state and route parameters of the result page; \<open>grade_response\<close> is the outcome of
  \<open>updateSessionScore\<close>, the session it returns or the error it throws.
\<close>

record result_details =
  rd_session :: "StudentExamSession option"
  updatingQ :: "string option"

definition send_grade ::
  "string \<Rightarrow> string \<Rightarrow> (error + StudentExamSession) \<Rightarrow> string \<Rightarrow> jsnum \<Rightarrow>
   result_details \<times> world \<Rightarrow> result_details \<times> world" where
  \<comment> \<open>\<open>setUpdatingQ(qId); try { ... } catch { alert } finally { setUpdatingQ(null) }\<close>\<close>
  "send_grade e s grade_response qId ns sw =
     (case sw of (st, w) \<Rightarrow>
      let w1 = emit (UpdateSessionScore e s qId ns) w in
      (case grade_response of
         Inr updated \<Rightarrow> (st\<lparr>rd_session := Some updated, updatingQ := None\<rparr>, w1)
       | Inl err \<Rightarrow> (st\<lparr>updatingQ := None\<rparr>, emit (Alert ''Failed to update score'') w1)))"

definition handleGrade ::
  "env \<Rightarrow> string option \<Rightarrow> string option \<Rightarrow> (error + StudentExamSession) \<Rightarrow>
   string \<Rightarrow> jsnum \<Rightarrow> jsnum option \<Rightarrow> result_details \<times> world \<Rightarrow> result_details \<times> world" where
  "handleGrade E examId' studentId' grade_response qId newScore maxScore sw =
     (case sw of (st, w) \<Rightarrow>
      (case (examId', studentId') of
         (Some e, Some s) \<Rightarrow>
           if e = [] \<or> s = [] then (st, w)
           else
             let ns = newScore in
             if isNaN ns then (st, emit (Alert ''Grade must be a number'') w)
             else (case maxScore of
                     None \<Rightarrow> send_grade e s grade_response qId ns (st, w)
                   | Some m \<Rightarrow>
                       if num_lt ns (Fin 0) \<or> num_gt ns m
                       then (st, emit (Alert (''Grade must be between 0 and '' @ num_to_string E m)) w)
                       else send_grade e s grade_response qId ns (st, w))
       | _ \<Rightarrow> (st, w)))"

section \<open>Names used in the statements\<close>

text \<open>The key of the local entry of an exam and a student, as the specification has it.\<close>

definition session_key :: "string \<Rightarrow> string \<Rightarrow> string" where
  "session_key e u = ''exam_session_'' @ e @ ''_'' @ u"

text \<open>The stored snapshot of a session, and the requests of autosave and submission.\<close>

definition snapshot :: "StudentExamSession \<Rightarrow> json_text" where
  "snapshot s = JSON_stringify (JObj (session_object s))"

definition save_url :: "StudentExamSession \<Rightarrow> string" where
  "save_url s = ''/api/exams/'' @ examId s @ ''/session''"

definition save_payload :: "StudentExamSession \<Rightarrow> jsval" where
  "save_payload s =
     JObj [(''answers'', JObj (answers s)), (''remaining_seconds'', JNum (remainingSeconds s))]"

definition submit_url :: "StudentExamSession \<Rightarrow> string" where
  "submit_url s = ''/api/exams/'' @ examId s @ ''/submit''"

definition submit_payload :: "StudentExamSession \<Rightarrow> jsval" where
  "submit_payload s = JObj [(''answers'', JObj (answers s))]"

text \<open>
  The conditions of the resume rules in the specification's words. A field of a record is
  the first of its spellings whose value is neither undefined nor null.
\<close>

fun first_present :: "jsval \<Rightarrow> string list \<Rightarrow> jsval option" where
  "first_present v [] = None"
| "first_present v (k # ks) = (if nullish (get_prop v k) then first_present v ks else Some (get_prop v k))"

definition field_matches :: "env \<Rightarrow> jsval option \<Rightarrow> string \<Rightarrow> bool" where
  "field_matches E f ident = (case f of None \<Rightarrow> False | Some x \<Rightarrow> js_String E x = Inr ident)"

definition positive_number :: "jsval option \<Rightarrow> bool" where
  "positive_number f = (case f of Some (JNum n) \<Rightarrow> num_gt n (Fin 0) | _ \<Rightarrow> False)"

definition server_record_matches :: "env \<Rightarrow> jsval \<Rightarrow> string \<Rightarrow> string \<Rightarrow> bool" where
  "server_record_matches E sess e u \<longleftrightarrow>
     field_matches E (first_present sess [''examId'', ''exam_id'']) e
     \<and> field_matches E (first_present sess [''studentId'', ''student_id'']) u"

definition entry_ids_match :: "env \<Rightarrow> jsval \<Rightarrow> string \<Rightarrow> string \<Rightarrow> bool" where
  "entry_ids_match E entry e u \<longleftrightarrow>
     field_matches E (first_present entry [''examId'', ''exam_id'']) e
     \<and> field_matches E (first_present entry [''studentId'', ''student_id'', ''student'']) u"

definition local_entry_resumable ::
  "env \<Rightarrow> jsval \<Rightarrow> string \<Rightarrow> string \<Rightarrow> real \<Rightarrow> jsnum \<Rightarrow> bool" where
  "local_entry_resumable E entry e u now end' \<longleftrightarrow>
     entry_ids_match E entry e u
     \<and> first_present entry [''status''] \<noteq> Some (JStr ''submitted'')
     \<and> positive_number (first_present entry [''remainingSeconds'', ''remaining_seconds''])
     \<and> positive_number (first_present entry [''startTime'', ''start_time''])
     \<and> \<not> num_gt (Fin now) end'"

section \<open>Example data\<close>

definition example_question :: Question where
  "example_question =
     \<lparr>q_id = ''q1'', title = ''Pick two'', description = None, complexity = ''Class 1'',
      qtype = MULTI_CHOICE, options = Some [''a'', ''b'', ''c''],
      correct_answers = KeyList [''a'', ''b''], max_score = Fin 2, tags = None\<rparr>"


definition example_session :: StudentExamSession where
  "example_session =
     \<lparr>examId = ''e1'', studentId = ''u2'', startTime = Fin 1700000000000,
      answers = [(''q1'', JStr ''a'')], remainingSeconds = Fin 42, status = in_progress,
      score = None, questionScores = None\<rparr>"

text \<open>
  Sessions as \<open>startExamSession\<close> builds them from other answers of the server: half a second
  left, five seconds overdrawn, and a \<open>start_time\<close> that is no date, whose time value is NaN.
\<close>

definition half_second_session :: StudentExamSession where
  "half_second_session = example_session\<lparr>remainingSeconds := Fin (1 / 2)\<rparr>"

definition overdrawn_session :: StudentExamSession where
  "overdrawn_session = example_session\<lparr>remainingSeconds := Fin (- 5)\<rparr>"

definition undated_session :: StudentExamSession where
  "undated_session = example_session\<lparr>startTime := NaN\<rparr>"

definition empty_world :: world where
  "empty_world = \<lparr>localStorage = Map.empty, trace = []\<rparr>"

definition example_details :: result_details where
  "example_details = \<lparr>rd_session = None, updatingQ = None\<rparr>"

text \<open>
  A browser whose requests all fail, one whose submission is answered with the finalized
  session, one whose submission is answered with status 200 and the body \<open>null\<close>, and one whose
  \<open>atob\<close> decodes the token \<open>dG9rZW4=\<close> to the JSON text of \<open>claims\<close>. No example below
  prints a number that is not whole or reads a number from a string, so the two conversions
  are arbitrary here.
\<close>

definition offline_env :: env where
  "offline_env =
     \<lparr>storage_writable = True,
      http_put = (\<lambda>url payload. Inl (AxiosError JUndefined ''Network Error'')),
      http_post = (\<lambda>url payload. Inl (AxiosError JUndefined ''Network Error'')),
      confirm_answer = True, Date_now = 1700000100000, Date_getTime = (\<lambda>v. NaN),
      atob = (\<lambda>t. Inl InvalidCharacterError),
      NumberToString = (\<lambda>r. ''0.5''), StringToNumber = (\<lambda>s. NaN)\<rparr>"

definition online_env :: env where
  "online_env =
     offline_env\<lparr>http_put := (\<lambda>url payload. Inr (JObj [])),
                 http_post := (\<lambda>url payload. Inr (JObj [(''status'', JStr ''submitted'')]))\<rparr>"

definition null_body_env :: env where
  "null_body_env = offline_env\<lparr>http_post := (\<lambda>url payload. Inr JNull)\<rparr>"

definition token_env :: "jsval \<Rightarrow> env" where
  "token_env claims =
     offline_env\<lparr>atob := (\<lambda>t. if t = ''dG9rZW4='' then Inr (JsonText claims)
                                else Inl InvalidCharacterError)\<rparr>"

definition expired_runner :: runner where
  "expired_runner =
     \<lparr>session = Some example_session, loading = False, timeLeft = Fin 0, saving = False,
      timer = False, saveTimeout = False\<rparr>"

definition example_props :: runner_props where
  "example_props = \<lparr>route_examId = Some ''e1'', currentUser_id = ''u2''\<rparr>"

text \<open>Records as the results call returns them, and a store holding the snapshot of the example session.\<close>

definition submitted_record :: jsval where
  "submitted_record =
     JObj [(''examId'', JStr ''e1''), (''studentId'', JStr ''u2''), (''status'', JStr ''submitted''),
           (''remainingSeconds'', JNum (Fin 0))]"

definition running_record :: jsval where
  "running_record =
     JObj [(''examId'', JStr ''e2''), (''studentId'', JStr ''u2''), (''status'', JStr ''in_progress''),
           (''remainingSeconds'', JNum (Fin 42))]"

definition foreign_record :: jsval where
  "foreign_record =
     JObj [(''examId'', JStr ''e3''), (''studentId'', JStr ''u9''), (''status'', JStr ''submitted''),
           (''remainingSeconds'', JNum (Fin 0))]"

text \<open>A record whose remaining seconds are an object with a \<open>toString\<close> property.\<close>

definition opaque_record :: jsval where
  "opaque_record =
     JObj [(''examId'', JStr ''e1''), (''studentId'', JStr ''u2''), (''status'', JStr ''in_progress''),
           (''remainingSeconds'', JObj [(''toString'', JNum (Fin 1))])]"

definition saved_world :: world where
  "saved_world = \<lparr>localStorage = [session_key ''e1'' ''u2'' \<mapsto> snapshot example_session], trace = []\<rparr>"

section \<open>Grading check (ResultDetails)\<close>








text \<open>
  C8. Manual grading of a question whose \<open>max_score\<close> is the number \<open>m\<close>, on a result page
  opened for an exam and a student (both route parameters present). A new score below 0 or
  above \<open>m\<close> changes nothing and raises exactly one alert, "Grade must be between 0 and m":
  no request is made. A score from 0 to \<open>m\<close>, in particular 0 and \<open>m\<close> themselves, is sent to
  the server, and the only alert that can follow is the one for a failed request.
\<close>

theorem handleGrade_score_bounds:
  assumes "e \<noteq> []" and "s \<noteq> []" and "max_score q = Fin m"
  shows "((n < 0 \<or> m < n) \<longrightarrow>
            handleGrade E (Some e) (Some s) resp (q_id q) (Fin n) (Some (max_score q)) (st, w)
            = (st, emit (Alert (''Grade must be between 0 and '' @ num_to_string E (Fin m))) w))
       \<and> ((0 \<le> n \<and> n \<le> m) \<longrightarrow>
            (\<exists>rest. trace (snd (handleGrade E (Some e) (Some s) resp (q_id q) (Fin n)
                                   (Some (max_score q)) (st, w)))
                    = trace w @ UpdateSessionScore e s (q_id q) (Fin n) # rest
                  \<and> (\<forall>msg. Alert msg \<in> set rest \<longrightarrow> msg = ''Failed to update score'')))"
  using assms
  by (cases resp)
     (auto simp: handleGrade_def send_grade_def emit_def isNaN_def num_gt_def)

theorem handleGrade_score_bounds_witness:
  "handleGrade offline_env (Some ''e1'') (Some ''u2'') (Inl (Error ''offline'')) (q_id example_question)
      (Fin (- 1)) (Some (max_score example_question)) (example_details, empty_world)
   = (example_details,
      emit (Alert (''Grade must be between 0 and '' @ num_to_string offline_env (Fin 2))) empty_world)
   \<and> handleGrade offline_env (Some ''e1'') (Some ''u2'') (Inl (Error ''offline'')) (q_id example_question)
      (Fin 3) (Some (max_score example_question)) (example_details, empty_world)
   = (example_details,
      emit (Alert (''Grade must be between 0 and '' @ num_to_string offline_env (Fin 2))) empty_world)
   \<and> (\<exists>rest. trace (snd (handleGrade offline_env (Some ''e1'') (Some ''u2'') (Inl (Error ''offline''))
                  (q_id example_question) (Fin 0) (Some (max_score example_question))
                  (example_details, empty_world)))
              = trace empty_world @ UpdateSessionScore ''e1'' ''u2'' (q_id example_question) (Fin 0) # rest)
   \<and> (\<exists>rest. trace (snd (handleGrade offline_env (Some ''e1'') (Some ''u2'') (Inl (Error ''offline''))
                  (q_id example_question) (Fin 2) (Some (max_score example_question))
                  (example_details, empty_world)))
              = trace empty_world @ UpdateSessionScore ''e1'' ''u2'' (q_id example_question) (Fin 2) # rest)"
proof -
  have e: "''e1'' \<noteq> []" and s: "''u2'' \<noteq> []" by simp_all
  have m: "max_score example_question = Fin 2" by (simp add: example_question_def)
  note t = handleGrade_score_bounds[OF e s m, where E = offline_env
             and resp = "Inl (Error ''offline'')" and st = example_details and w = empty_world]
  have "(- 1 :: real) < 0 \<or> 2 < (- 1 :: real)" and "(3 :: real) < 0 \<or> 2 < (3 :: real)"
    and "(0 :: real) \<le> 0 \<and> (0 :: real) \<le> 2" and "(0 :: real) \<le> 2 \<and> (2 :: real) \<le> 2"
    by simp_all
  then show ?thesis
    using t[of "- 1"] t[of 3] t[of 0] t[of 2] by blast
qed

section \<open>Countdown (ExamRunner)\<close>

lemma tick_whole:
  assumes "timeLeft st = Fin (of_int k)" and "0 \<le> k" and "timer st \<or> k = 0"
  shows "timeLeft (tick st) = Fin (of_int (max 0 (k - 1))) \<and> (timer (tick st) \<or> max 0 (k - 1) = 0)"
  using assms by (auto simp: tick_def num_le_def num_eq_def max_def)

lemma countdown_closed_form:
  assumes "status sess = in_progress" and "remainingSeconds sess = Fin (of_int k)" and "0 \<le> k"
  shows "timeLeft (countdown sess n) = Fin (of_int (max 0 (k - int n)))
         \<and> (timer (countdown sess n) \<or> max 0 (k - int n) = 0)"
proof (induction n)
  case 0
  then show ?case
    using assms
    by (simp add: countdown_def timer_effect_def session_loaded_def initial_runner_def)
next
  case (Suc n)
  have c: "countdown sess (Suc n) = tick (countdown sess n)"
    by (simp add: countdown_def)
  have m: "max 0 (max 0 (k - int n) - 1) = max 0 (k - int (Suc n))"
    by simp
  have "0 \<le> max 0 (k - int n)"
    by simp
  then show ?case
    using tick_whole[of "countdown sess n" "max 0 (k - int n)"] Suc unfolding c m by blast
qed

text \<open>
  C4, as the claim states it, fails when the remaining seconds the session is loaded with
  are not a whole number or are negative. From half a second the first firing of the
  interval leaves \<open>-1/2\<close>, a negative value, and the second raises it to 0; from \<open>-5\<close> the
  first firing raises the value to 0.
\<close>

theorem countdown_fraction_or_negative:
  "status half_second_session = in_progress
   \<and> timeLeft (countdown half_second_session 1) = Fin (- 1 / 2)
   \<and> num_lt (timeLeft (countdown half_second_session 1)) (Fin 0)
   \<and> num_lt (timeLeft (countdown half_second_session 1)) (timeLeft (countdown half_second_session 2))
   \<and> status overdrawn_session = in_progress
   \<and> timeLeft (countdown overdrawn_session 0) = Fin (- 5)
   \<and> timeLeft (countdown overdrawn_session 1) = Fin 0
   \<and> num_lt (timeLeft (countdown overdrawn_session 0)) (timeLeft (countdown overdrawn_session 1))"
  by (simp add: countdown_def tick_def timer_effect_def session_loaded_def initial_runner_def
      half_second_session_def overdrawn_session_def example_session_def num_le_def num_eq_def
      numeral_2_eq_2)

text \<open>
  C4, amended. For a session in progress that is loaded with a whole number \<open>k\<close> of
  remaining seconds, from 0 to \<open>2\<^sup>5\<^sup>3\<close> (up to which the subtraction of 1 is exact on the
  browser's numbers), the countdown after \<open>n\<close> firings of the interval is \<open>max 0 (k - n)\<close>. It
  is never negative and never increases: a firing either takes exactly 1 off or leaves the
  value at 0 once it is 0.
\<close>

theorem countdown_whole_seconds:
  assumes "status sess = in_progress" and "remainingSeconds sess = Fin (of_int k)"
    and "0 \<le> k" and "k \<le> 9007199254740992"
  shows "timeLeft (countdown sess n) = Fin (of_int (max 0 (k - int n)))
       \<and> num_le (Fin 0) (timeLeft (countdown sess n))
       \<and> num_le (timeLeft (countdown sess (Suc n))) (timeLeft (countdown sess n))
       \<and> (timeLeft (countdown sess (Suc n)) = num_sub (timeLeft (countdown sess n)) (Fin 1)
          \<or> timeLeft (countdown sess n) = Fin 0 \<and> timeLeft (countdown sess (Suc n)) = Fin 0)"
proof -
  have a: "timeLeft (countdown sess n) = Fin (of_int (max 0 (k - int n)))"
    and b: "timeLeft (countdown sess (Suc n)) = Fin (of_int (max 0 (k - int (Suc n))))"
    using countdown_closed_form[OF assms(1,2,3)] by blast+
  show ?thesis
    unfolding a b by (auto simp: num_le_def num_eq_def max_def)
qed

theorem countdown_witness:
  "timeLeft (countdown example_session 2) = Fin 40
   \<and> timeLeft (countdown example_session 42) = Fin 0
   \<and> timeLeft (countdown example_session 50) = Fin 0
   \<and> num_le (timeLeft (countdown example_session 3)) (timeLeft (countdown example_session 2))"
proof -
  have h: "status example_session = in_progress" "remainingSeconds example_session = Fin (of_int 42)"
    "(0 :: int) \<le> 42" "(42 :: int) \<le> 9007199254740992"
    by (simp_all add: example_session_def)
  note c = countdown_whole_seconds[OF h]
  have c2: "timeLeft (countdown example_session 2) = Fin 40"
    and c42: "timeLeft (countdown example_session 42) = Fin 0"
    and c50: "timeLeft (countdown example_session 50) = Fin 0"
    using c[of 2] c[of 42] c[of 50] by simp_all
  have "num_le (timeLeft (countdown example_session (Suc 2))) (timeLeft (countdown example_session 2))"
    using c[of 2] by blast
  then have "num_le (timeLeft (countdown example_session 3)) (timeLeft (countdown example_session 2))"
    by (simp add: numeral_3_eq_3)
  with c2 c42 c50 show ?thesis by blast
qed

section \<open>Autosave and submission (api.ts, ExamRunner)\<close>



lemma submitExam_rejected:
  assumes "http_post E (submit_url s) (submit_payload s) = Inl err"
  shows "submitExam E s w =
           (emit (HttpPost (submit_url s) (submit_payload s)) w,
            Inl (new_Error E (error_detail err ''Failed to submit session to backend'')))"
  using assms
  by (simp add: submitExam_def try_catch_def bind_def axios_post_def throw_def
      submit_url_def submit_payload_def)

lemma submitExam_answered:
  assumes "http_post E (submit_url s) (submit_payload s) = Inr data"
  shows "fst (submitExam E s w) =
           removeItem (session_key (examId s) (studentId s))
              (emit (HttpPost (submit_url s) (submit_payload s)) w)"
  using assms
  by (auto simp: submitExam_def try_catch_def bind_def axios_post_def throw_def ret_def
      localStorage_removeItem_def submit_url_def submit_payload_def session_key_def
      split: sum.splits)

lemma submitExam_empty_body:
  assumes "http_post E (submit_url s) (submit_payload s) = Inr data" and "nullish data"
  shows "\<exists>e. snd (submitExam E s w) = Inl e"
  using assms
  by (simp add: submitExam_def try_catch_def bind_def axios_post_def throw_def ret_def
      localStorage_removeItem_def submit_url_def submit_payload_def session_key_def)

lemma submitExam_trace:
  "\<exists>new. trace (fst (submitExam E s w)) = trace w @ HttpPost (submit_url s) (submit_payload s) # new
      \<and> (\<forall>msg. Confirm msg \<notin> set new)"
proof (cases "http_post E (submit_url s) (submit_payload s)")
  case (Inl err)
  then show ?thesis by (simp add: submitExam_rejected emit_def)
next
  case (Inr data)
  then show ?thesis
    by (simp add: submitExam_answered emit_def removeItem_def)
qed

lemma handleFinishExam_trace:
  "\<exists>new. trace (snd (handleFinishExam E props manual (st, w))) = trace w @ new
      \<and> (\<forall>msg. Confirm msg \<in> set new \<longrightarrow> manual)"
proof (cases "session st")
  case None
  then show ?thesis by (simp add: handleFinishExam_def)
next
  case (Some sess)
  obtain new where n: "trace (fst (submitExam E (sess\<lparr>remainingSeconds := timeLeft st\<rparr>)
        (if manual then emit (Confirm confirm_message) w else w)))
      = trace (if manual then emit (Confirm confirm_message) w else w)
        @ HttpPost (submit_url (sess\<lparr>remainingSeconds := timeLeft st\<rparr>))
            (submit_payload (sess\<lparr>remainingSeconds := timeLeft st\<rparr>)) # new"
     "\<forall>msg. Confirm msg \<notin> set new"
    using submitExam_trace by blast
  show ?thesis
    using Some n
    by (cases "submitExam E (sess\<lparr>remainingSeconds := timeLeft st\<rparr>)
        (if manual then emit (Confirm confirm_message) w else w)")
       (auto simp: handleFinishExam_def emit_def Let_def split: sum.splits)
qed

text \<open>
  What a submission from a loaded session does (a manual one confirmed by the student).
  When the request fails, the store is unchanged, the session in the component is
  unchanged, \<open>loading\<close> is off again so that the student can retry, and the last effect is the
  alert. When the request succeeds, the local entry of the session's \<open>examId\<close> and
  \<open>studentId\<close> is removed and nothing else in the store changes; the last effect is the
  navigation to the result page when \<open>submitExam\<close> returns, and the alert when it throws,
  which it does when the body of the answer is null.
\<close>

lemma submit_outcome:
  assumes "session st = Some s" and "\<not> loading st" and "manual \<longrightarrow> confirm_answer E"
  shows "(http_post E (submit_url s) (submit_payload s) = Inl err \<longrightarrow>
            session (fst (handleFinishExam E props manual (st, w))) = Some s
            \<and> \<not> loading (fst (handleFinishExam E props manual (st, w)))
            \<and> localStorage (snd (handleFinishExam E props manual (st, w))) = localStorage w
            \<and> last (trace (snd (handleFinishExam E props manual (st, w))))
              = Alert ''Failed to submit exam. Please try again.'')
       \<and> (http_post E (submit_url s) (submit_payload s) = Inr data \<longrightarrow>
            localStorage (snd (handleFinishExam E props manual (st, w)))
              = (localStorage w)(session_key (examId s) (studentId s) := None)
            \<and> last (trace (snd (handleFinishExam E props manual (st, w))))
              = (case snd (submitExam E (s\<lparr>remainingSeconds := timeLeft st\<rparr>)
                             (if manual then emit (Confirm confirm_message) w else w)) of
                   Inr result \<Rightarrow>
                     Navigate (''/result/'' @ param_string (route_examId props) @ ''/'' @ currentUser_id props)
                 | Inl e \<Rightarrow> Alert ''Failed to submit exam. Please try again.'')
            \<and> (nullish data \<longrightarrow> last (trace (snd (handleFinishExam E props manual (st, w))))
                  = Alert ''Failed to submit exam. Please try again.''))"
proof (intro conjI impI)
  let ?s' = "s\<lparr>remainingSeconds := timeLeft st\<rparr>"
  let ?w1 = "if manual then emit (Confirm confirm_message) w else w"
  have u: "submit_url ?s' = submit_url s" "submit_payload ?s' = submit_payload s"
    "examId ?s' = examId s" "studentId ?s' = studentId s"
    by (simp_all add: submit_url_def submit_payload_def)
  {
    assume h: "http_post E (submit_url s) (submit_payload s) = Inr data"
    then have r: "fst (submitExam E ?s' ?w1) =
        removeItem (session_key (examId s) (studentId s))
           (emit (HttpPost (submit_url s) (submit_payload s)) ?w1)"
      using submitExam_answered[of E ?s' data ?w1] u by simp
    show "localStorage (snd (handleFinishExam E props manual (st, w)))
              = (localStorage w)(session_key (examId s) (studentId s) := None)"
      using assms r
      by (cases "submitExam E ?s' ?w1")
         (auto simp: handleFinishExam_def emit_def removeItem_def split: sum.splits)
    show l: "last (trace (snd (handleFinishExam E props manual (st, w))))
              = (case snd (submitExam E ?s' ?w1) of
                   Inr result \<Rightarrow>
                     Navigate (''/result/'' @ param_string (route_examId props) @ ''/'' @ currentUser_id props)
                 | Inl e \<Rightarrow> Alert ''Failed to submit exam. Please try again.'')"
      using assms
      by (cases "submitExam E ?s' ?w1")
         (auto simp: handleFinishExam_def emit_def split: sum.splits)
    {
      assume "nullish data"
      then obtain e where "snd (submitExam E ?s' ?w1) = Inl e"
        using submitExam_empty_body[of E ?s' data ?w1] h u by auto
      then show "last (trace (snd (handleFinishExam E props manual (st, w))))
                  = Alert ''Failed to submit exam. Please try again.''"
        unfolding l by simp
    }
  }
  {
    assume h: "http_post E (submit_url s) (submit_payload s) = Inl err"
    then have r: "submitExam E ?s' ?w1 =
           (emit (HttpPost (submit_url s) (submit_payload s)) ?w1,
            Inl (new_Error E (error_detail err ''Failed to submit session to backend'')))"
      using submitExam_rejected[of E ?s' err ?w1] u by auto
    show "session (fst (handleFinishExam E props manual (st, w))) = Some s"
      using assms r by (auto simp: handleFinishExam_def emit_def)
    show "\<not> loading (fst (handleFinishExam E props manual (st, w)))"
      using assms r by (auto simp: handleFinishExam_def emit_def)
    show "localStorage (snd (handleFinishExam E props manual (st, w))) = localStorage w"
      using assms r by (auto simp: handleFinishExam_def emit_def)
    show "last (trace (snd (handleFinishExam E props manual (st, w))))
              = Alert ''Failed to submit exam. Please try again.''"
      using assms r by (auto simp: handleFinishExam_def emit_def)
  }
qed

text \<open>
  C6 does not hold of the code. \<open>submitExam\<close> removes the local entry as soon as the
  request has succeeded and reads the body of the answer only afterwards. When the server
  answers the submission of the example session with status 200 and the body \<open>null\<close>, in a
  store that holds the session's entry: the entry is gone, \<open>submitExam\<close> throws, the
  component logs the error and shows the alert of a failed submission, nothing navigates,
  and the session stays as it was, with \<open>loading\<close> off, for the student to retry.
\<close>

theorem submit_null_body_removes_entry_then_fails:
  "http_post null_body_env (submit_url example_session) (submit_payload example_session) = Inr JNull
   \<and> localStorage saved_world (session_key ''e1'' ''u2'') = Some (snapshot example_session)
   \<and> localStorage (snd (handleFinishExam null_body_env example_props False (expired_runner, saved_world)))
        (session_key ''e1'' ''u2'') = None
   \<and> trace (snd (handleFinishExam null_body_env example_props False (expired_runner, saved_world)))
       = [HttpPost ''/api/exams/e1/submit'' (JObj [(''answers'', JObj [(''q1'', JStr ''a'')])]),
          StorageRemove (session_key ''e1'' ''u2''), ConsoleError,
          Alert ''Failed to submit exam. Please try again.'']
   \<and> session (fst (handleFinishExam null_body_env example_props False (expired_runner, saved_world)))
       = Some example_session
   \<and> \<not> loading (fst (handleFinishExam null_body_env example_props False (expired_runner, saved_world)))"
  by (simp add: handleFinishExam_def submitExam_def try_catch_def bind_def axios_post_def throw_def
      ret_def localStorage_removeItem_def removeItem_def emit_def null_body_env_def offline_env_def
      expired_runner_def example_session_def saved_world_def session_key_def nullish_def
      submit_url_def submit_payload_def)

lemma finish_button_confirms:
  assumes "session st = Some s" and "\<not> loading st"
  shows "\<exists>rest. trace (snd (finish_button E props (st, w))) = trace w @ Confirm confirm_message # rest
            \<and> (\<not> confirm_answer E \<longrightarrow> rest = [] \<and> fst (finish_button E props (st, w)) = st)"
proof (cases "confirm_answer E")
  case False
  then show ?thesis
    using assms by (simp add: finish_button_def handleFinishExam_def emit_def)
next
  case True
  obtain new where n: "trace (fst (submitExam E (s\<lparr>remainingSeconds := timeLeft st\<rparr>)
        (emit (Confirm confirm_message) w)))
      = trace (emit (Confirm confirm_message) w)
        @ HttpPost (submit_url (s\<lparr>remainingSeconds := timeLeft st\<rparr>))
            (submit_payload (s\<lparr>remainingSeconds := timeLeft st\<rparr>)) # new"
    using submitExam_trace by blast
  show ?thesis
    using assms True n
    by (cases "submitExam E (s\<lparr>remainingSeconds := timeLeft st\<rparr>) (emit (Confirm confirm_message) w)")
       (auto simp: finish_button_def handleFinishExam_def emit_def split: sum.splits)
qed

text \<open>
  C5. When the remaining time is 0, a session is loaded and not submitted, loading has
  finished and the start time is positive, the watcher calls \<open>handleFinishExam(false)\<close>, and
  the submit request is made. Whatever the state, the watcher never opens a confirmation
  dialog; \<open>handleFinishExam\<close> opens one only when called with \<open>manual = true\<close>, as the
  "Finish Exam" button does, whose first effect on a loaded session is the dialog.
\<close>

theorem auto_submit_without_confirmation:
  shows "(timeLeft st = Fin 0 \<and> session st = Some s \<and> status s = in_progress \<and> \<not> loading st
            \<and> num_gt (startTime s) (Fin 0) \<longrightarrow>
          auto_submit_watcher E props (st, w) = handleFinishExam E props False (st, w)
          \<and> (\<exists>rest. trace (snd (auto_submit_watcher E props (st, w)))
                  = trace w @ HttpPost (submit_url s) (submit_payload s) # rest))
       \<and> (\<forall>msg. Confirm msg \<in> set (trace (snd (auto_submit_watcher E props (st, w))))
                  \<longrightarrow> Confirm msg \<in> set (trace w))
       \<and> (\<forall>msg. Confirm msg \<in> set (trace (snd (handleFinishExam E props manual (st, w))))
                  \<and> Confirm msg \<notin> set (trace w) \<longrightarrow> manual)
       \<and> (session st = Some s \<and> \<not> loading st \<longrightarrow>
            (\<exists>rest. trace (snd (finish_button E props (st, w))) = trace w @ Confirm confirm_message # rest))"
proof (intro conjI impI allI)
  assume h: "timeLeft st = Fin 0 \<and> session st = Some s \<and> status s = in_progress \<and> \<not> loading st
            \<and> num_gt (startTime s) (Fin 0)"
  then have f: "auto_submit_fires st"
    by (simp add: auto_submit_fires_def)
  then show a: "auto_submit_watcher E props (st, w) = handleFinishExam E props False (st, w)"
    by (simp add: auto_submit_watcher_def)
  obtain new where n: "trace (fst (submitExam E (s\<lparr>remainingSeconds := timeLeft st\<rparr>) w))
      = trace w @ HttpPost (submit_url (s\<lparr>remainingSeconds := timeLeft st\<rparr>))
            (submit_payload (s\<lparr>remainingSeconds := timeLeft st\<rparr>)) # new"
    using submitExam_trace by blast
  have "\<exists>rest. trace (snd (handleFinishExam E props False (st, w)))
                  = trace w @ HttpPost (submit_url s) (submit_payload s) # rest"
    using h n
    by (cases "submitExam E (s\<lparr>remainingSeconds := timeLeft st\<rparr>) w")
       (auto simp: handleFinishExam_def emit_def submit_url_def submit_payload_def split: sum.splits)
  with a show "\<exists>rest. trace (snd (auto_submit_watcher E props (st, w)))
                  = trace w @ HttpPost (submit_url s) (submit_payload s) # rest"
    by simp
next
  fix msg
  assume "Confirm msg \<in> set (trace (snd (auto_submit_watcher E props (st, w))))"
  then show "Confirm msg \<in> set (trace w)"
    using handleFinishExam_trace[of E props False st w]
    by (auto simp: auto_submit_watcher_def split: if_splits)
next
  fix msg
  assume "Confirm msg \<in> set (trace (snd (handleFinishExam E props manual (st, w))))
            \<and> Confirm msg \<notin> set (trace w)"
  then show manual
    using handleFinishExam_trace[of E props manual st w] by auto
next
  assume "session st = Some s \<and> \<not> loading st"
  then show "\<exists>rest. trace (snd (finish_button E props (st, w))) = trace w @ Confirm confirm_message # rest"
    using finish_button_confirms[of st s E props w] by blast
qed

theorem auto_submit_witness:
  "auto_submit_watcher online_env example_props (expired_runner, empty_world)
     = handleFinishExam online_env example_props False (expired_runner, empty_world)
   \<and> (\<exists>rest. trace (snd (auto_submit_watcher online_env example_props (expired_runner, empty_world)))
          = trace empty_world @ HttpPost (submit_url example_session) (submit_payload example_session) # rest)"
proof -
  have h: "timeLeft expired_runner = Fin 0 \<and> session expired_runner = Some example_session
           \<and> status example_session = in_progress \<and> \<not> loading expired_runner
           \<and> num_gt (startTime example_session) (Fin 0)"
    by (simp add: expired_runner_def example_session_def num_gt_def)
  show ?thesis
    using auto_submit_without_confirmation
            [of expired_runner example_session online_env example_props empty_world,
             THEN conjunct1] h
    by blast
qed

section \<open>Local decoding of the token (api.ts)\<close>

lemma strict_eq_string: "strict_eq v (JStr s) \<longleftrightarrow> v = JStr s"
  by (induction v "JStr s" rule: strict_eq.induct) auto

text \<open>
  C10. When \<open>GET /users/me\<close> fails and \<open>getCurrentUser\<close> returns a user built from the
  locally decoded token, the user's role is the string \<open>admin\<close> or the string \<open>student\<close>, and
  it is \<open>admin\<close> exactly when the \<open>role\<close> of the decoded token is the string \<open>admin\<close>: any other
  value there, or none, gives \<open>student\<close>.
\<close>

theorem getCurrentUser_fallback_role:
  assumes "getCurrentUser E (Inl err) token \<noteq> JNull"
  shows "(get_prop (getCurrentUser E (Inl err) token) ''role'' = JStr ''admin''
          \<or> get_prop (getCurrentUser E (Inl err) token) ''role'' = JStr ''student'')
       \<and> (get_prop (getCurrentUser E (Inl err) token) ''role'' = JStr ''admin''
          \<longleftrightarrow> get_prop (decodeTokenLocal E token) ''role'' = JStr ''admin'')"
  using assms
  by (auto simp: getCurrentUser_def Let_def strict_eq_string split: if_splits sum.splits)

theorem getCurrentUser_fallback_role_witness:
  "get_prop (getCurrentUser (token_env (JObj [(''id'', JNum (Fin 7)), (''role'', JStr ''superuser'')]))
              (Inl (AxiosError JUndefined ''Network Error'')) ''dG9rZW4='') ''role'' = JStr ''student''
   \<and> get_prop (getCurrentUser (token_env (JObj [(''id'', JNum (Fin 7))]))
              (Inl (AxiosError JUndefined ''Network Error'')) ''dG9rZW4='') ''role'' = JStr ''student''
   \<and> get_prop (getCurrentUser (token_env (JObj [(''id'', JNum (Fin 1)), (''role'', JStr ''admin'')]))
              (Inl (AxiosError JUndefined ''Network Error'')) ''dG9rZW4='') ''role'' = JStr ''admin''"
proof -
  have d: "decodeTokenLocal (token_env (JObj kvs)) ''dG9rZW4='' = JObj kvs" if "json_props kvs" for kvs
    using that by (simp add: decodeTokenLocal_def token_env_def JSON_parse_def)
  have j: "json_props [(''id'', JNum (Fin 7)), (''role'', JStr ''superuser'')]"
    "json_props [(''id'', JNum (Fin 7))]"
    "json_props [(''id'', JNum (Fin 1)), (''role'', JStr ''admin'')]"
    by simp_all
  have n: "getCurrentUser (token_env (JObj ((''id'', JNum (Fin i)) # kvs))) (Inl e) ''dG9rZW4='' \<noteq> JNull"
    if "json_props ((''id'', JNum (Fin i)) # kvs)" and "i \<noteq> 0" and "map_of kvs ''name'' = None"
      and "map_of kvs ''full_name'' = None" and "map_of kvs ''username'' = None"
      and "map_of kvs ''email'' = None" for i kvs e
    using that by (simp add: getCurrentUser_def d Let_def js_or_def)
  have r1: "get_prop (JObj [(''id'', JNum (Fin 7)), (''role'', JStr ''superuser'')]) ''role''
            \<noteq> JStr ''admin''"
    and r2: "get_prop (JObj [(''id'', JNum (Fin 7))]) ''role'' \<noteq> JStr ''admin''"
    and r3: "get_prop (JObj [(''id'', JNum (Fin 1)), (''role'', JStr ''admin'')]) ''role''
            = JStr ''admin''"
    by simp_all
  have n1: "getCurrentUser (token_env (JObj [(''id'', JNum (Fin 7)), (''role'', JStr ''superuser'')]))
              (Inl (AxiosError JUndefined ''Network Error'')) ''dG9rZW4='' \<noteq> JNull"
    and n2: "getCurrentUser (token_env (JObj [(''id'', JNum (Fin 7))]))
              (Inl (AxiosError JUndefined ''Network Error'')) ''dG9rZW4='' \<noteq> JNull"
    and n3: "getCurrentUser (token_env (JObj [(''id'', JNum (Fin 1)), (''role'', JStr ''admin'')]))
              (Inl (AxiosError JUndefined ''Network Error'')) ''dG9rZW4='' \<noteq> JNull"
    by (rule n; simp)+
  show ?thesis
    using getCurrentUser_fallback_role[OF n1] getCurrentUser_fallback_role[OF n2]
          getCurrentUser_fallback_role[OF n3] r1 r2 r3
    unfolding d[OF j(1)] d[OF j(2)] d[OF j(3)] by blast
qed

section \<open>Resume labels (StudentDashboard)\<close>

lemma get_prop_falsy: "\<not> truthy v \<Longrightarrow> get_prop v k = JUndefined"
  by (cases v) auto

lemma null_default: "nullish (nullish_or x JNull) = nullish x" "\<not> nullish x \<Longrightarrow> nullish_or x JNull = x"
  by (auto simp: nullish_or_def nullish_def)

lemma first_present_one: "first_present v [k] = (if nullish (get_prop v k) then None else Some (get_prop v k))"
  by simp

lemma first_present_two:
  "first_present v [k1, k2] =
     (if nullish (nullish_or (get_prop v k1) (get_prop v k2)) then None
      else Some (nullish_or (get_prop v k1) (get_prop v k2)))"
  by (simp add: nullish_or_def)

lemma first_present_three:
  "first_present v [k1, k2, k3] =
     (if nullish (nullish_or (nullish_or (get_prop v k1) (get_prop v k2)) (get_prop v k3)) then None
      else Some (nullish_or (nullish_or (get_prop v k1) (get_prop v k2)) (get_prop v k3)))"
  by (simp add: nullish_or_def)

lemma matches_unfold:
  "server_record_matches E r e u \<longleftrightarrow>
     \<not> nullish (nullish_or (nullish_or (get_prop r ''examId'') (get_prop r ''exam_id'')) JNull)
     \<and> \<not> nullish (nullish_or (nullish_or (get_prop r ''studentId'') (get_prop r ''student_id'')) JNull)
     \<and> js_String E (nullish_or (nullish_or (get_prop r ''examId'') (get_prop r ''exam_id'')) JNull) = Inr e
     \<and> js_String E (nullish_or (nullish_or (get_prop r ''studentId'') (get_prop r ''student_id'')) JNull) = Inr u"
  unfolding server_record_matches_def first_present_two field_matches_def
  by (auto simp: null_default)

lemma matches_truthy: "server_record_matches E r e u \<Longrightarrow> truthy r"
proof (rule ccontr)
  assume m: "server_record_matches E r e u" and "\<not> truthy r"
  then have "get_prop r ''examId'' = JUndefined" and "get_prop r ''exam_id'' = JUndefined"
    by (simp_all add: get_prop_falsy)
  then show False
    using m unfolding matches_unfold by (simp add: nullish_or_def nullish_def)
qed

lemma valid_of_matches:
  assumes "server_record_matches E sess e u"
  shows "isServerSessionValid E sess e u = Inr True"
  using assms matches_truthy[OF assms] unfolding matches_unfold
  by (simp add: isServerSessionValid_def Let_def)

lemma valid_only_matches:
  assumes "isServerSessionValid E sess e u = Inr True"
  shows "server_record_matches E sess e u"
  using assms unfolding matches_unfold
  by (auto simp: isServerSessionValid_def Let_def split: if_splits sum.splits)

lemma js_gt_nullish_or: "js_gt E (nullish_or x (JNum (Fin 0))) (Fin 0) = js_gt E x (Fin 0)"
  by (auto simp: nullish_or_def nullish_def js_gt_def js_ToNumber_def num_gt_def)

lemma server_branch:
  assumes "rm e = Some sess" and "server_record_matches E sess e u"
  shows "examStatusTry E w rm e u now end' =
     (if get_prop sess ''status'' = JStr ''submitted'' then Inr (Some Submitted, ServerSession)
      else (case js_gt E (get_prop sess ''remainingSeconds'') (Fin 0) of
              Inl err \<Rightarrow> Inl err
            | Inr timeRemains \<Rightarrow>
                if timeRemains \<and> num_le (Fin now) end' then Inr (Some Resumable, ServerSession)
                else Inr (None, NoReason)))"
proof -
  have t: "truthy sess"
    by (rule matches_truthy[OF assms(2)])
  have n: "nullish_or sess JNull = sess"
    using t by (auto simp: nullish_or_def nullish_def)
  have s: "js_String E (nullish_or (nullish_or (get_prop sess ''studentId'') (get_prop sess ''student_id'')) JNull) = Inr u"
    using assms(2) unfolding matches_unfold by simp
  show ?thesis
    using assms(1) t n s valid_of_matches[OF assms(2)]
    by (simp add: examStatusTry_def Let_def strict_eq_string js_gt_nullish_or)
qed

lemma no_record:
  assumes "rm e = None"
  shows "examStatusCheck E w rm e u now later end' = localFallback E w e u now end'"
  using assms by (simp add: examStatusCheck_def examStatusTry_def)

lemma find_in_append:
  "find P (xs @ ys) = (case find P xs of Some x \<Rightarrow> Some x | None \<Rightarrow> find P ys)"
  by (induction xs) auto

lemma resultsMap_of_find:
  "resultsMap_of E u rs m e =
     (case find (\<lambda>r. server_record_matches E r e u) (rev rs) of Some r \<Rightarrow> Some r | None \<Rightarrow> m e)"
proof (induction rs arbitrary: m)
  case Nil
  then show ?case by simp
next
  case (Cons r rs)
  let ?rid = "nullish_or (nullish_or (get_prop r ''examId'') (get_prop r ''exam_id'')) JNull"
  let ?rst = "nullish_or (nullish_or (get_prop r ''studentId'') (get_prop r ''student_id'')) JNull"
  let ?m' = "if \<not> nullish ?rid \<and> \<not> nullish ?rst then
              (case js_String E ?rst of
                 Inl err \<Rightarrow> m
               | Inr s \<Rightarrow>
                   if s = u
                   then (case js_String E ?rid of Inl err \<Rightarrow> m | Inr k \<Rightarrow> m(k \<mapsto> r))
                   else m)
            else m"
  have step: "?m' e = (if server_record_matches E r e u then Some r else m e)"
    unfolding matches_unfold by (auto split: sum.splits)
  have "resultsMap_of E u (r # rs) m e = resultsMap_of E u rs ?m' e"
    by (simp add: Let_def)
  also have "\<dots> = (case find (\<lambda>r. server_record_matches E r e u) (rev rs) of
                      Some x \<Rightarrow> Some x | None \<Rightarrow> ?m' e)"
    by (rule Cons)
  also have "\<dots> = (case find (\<lambda>r. server_record_matches E r e u) (rev (r # rs)) of
                      Some x \<Rightarrow> Some x | None \<Rightarrow> m e)"
    unfolding step by (simp add: find_in_append split: option.splits)
  finally show ?case .
qed

lemma record_found:
  assumes "find (\<lambda>r. server_record_matches E r e u) (rev rs) = Some sess"
  shows "examStatusCheck E w (resultsMap_of E u rs Map.empty) e u now later end' =
     (if get_prop sess ''status'' = JStr ''submitted'' then (Some Submitted, ServerSession)
      else (case js_gt E (get_prop sess ''remainingSeconds'') (Fin 0) of
              Inl err \<Rightarrow> localFallback E w e u later end'
            | Inr timeRemains \<Rightarrow>
                if timeRemains \<and> num_le (Fin now) end' then (Some Resumable, ServerSession)
                else (None, NoReason)))"
proof -
  have m: "server_record_matches E sess e u"
    using assms by (auto simp: find_Some_iff)
  have "resultsMap_of E u rs Map.empty e = Some sess"
    using assms by (simp add: resultsMap_of_find)
  then show ?thesis
    using server_branch[OF _ m, of "resultsMap_of E u rs Map.empty" w now end']
    by (auto simp: examStatusCheck_def split: sum.splits)
qed

lemma record_not_found:
  assumes "find (\<lambda>r. server_record_matches E r e u) (rev rs) = None"
  shows "examStatusCheck E w (resultsMap_of E u rs Map.empty) e u now later end'
         = localFallback E w e u now end'"
proof -
  have "resultsMap_of E u rs Map.empty e = None"
    using assms by (simp add: resultsMap_of_find)
  then show ?thesis
    by (rule no_record)
qed

lemma record_matches_simps:
  "server_record_matches E submitted_record e u \<longleftrightarrow> e = ''e1'' \<and> u = ''u2''"
  "server_record_matches E running_record e u \<longleftrightarrow> e = ''e2'' \<and> u = ''u2''"
  "server_record_matches E foreign_record e u \<longleftrightarrow> e = ''e3'' \<and> u = ''u9''"
  "server_record_matches E opaque_record e u \<longleftrightarrow> e = ''e1'' \<and> u = ''u2''"
  by (auto simp: server_record_matches_def field_matches_def nullish_def submitted_record_def
      running_record_def foreign_record_def opaque_record_def)

lemma js_gt_number: "js_gt E (JNum n) (Fin 0) = Inr (num_gt n (Fin 0))"
  by (simp add: js_gt_def js_ToNumber_def)

text \<open>
  C2, as the claim states it, fails for an exam whose \<open>end_time\<close> is not a date, so that the
  time value of its end is NaN. The record of exam \<open>e2\<close> and student \<open>u2\<close> matches, is in
  progress and has 42 seconds left, and the clock is not after the end (the comparison
  \<open>now > end\<close> is false); yet the exam gets no label, because the code asks for \<open>now <= end\<close>,
  which is false as well.
\<close>

theorem server_record_without_end:
  "server_record_matches offline_env running_record ''e2'' ''u2''
   \<and> get_prop running_record ''status'' \<noteq> JStr ''submitted''
   \<and> js_gt offline_env (get_prop running_record ''remainingSeconds'') (Fin 0) = Inr True
   \<and> \<not> num_gt (Fin 1700000100000) NaN
   \<and> examStatusCheck offline_env empty_world (resultsMap_of offline_env ''u2'' [running_record] Map.empty)
        ''e2'' ''u2'' 1700000100000 1700000100001 NaN = (None, NoReason)"
proof -
  have f: "find (\<lambda>r. server_record_matches offline_env r ''e2'' ''u2'') (rev [running_record])
           = Some running_record"
    by (simp add: record_matches_simps)
  have s: "get_prop running_record ''status'' \<noteq> JStr ''submitted''"
    and r: "js_gt offline_env (get_prop running_record ''remainingSeconds'') (Fin 0) = Inr True"
    by (simp_all add: running_record_def js_gt_number num_gt_def)
  have n: "\<not> num_gt (Fin 1700000100000) NaN" and l: "\<not> num_le (Fin 1700000100000) NaN"
    by (simp_all add: num_gt_def num_le_def num_eq_def)
  have m: "server_record_matches offline_env running_record ''e2'' ''u2''"
    by (simp add: record_matches_simps)
  show ?thesis
    using m s r n l record_found[OF f, of empty_world 1700000100000 1700000100001 NaN] by simp
qed

text \<open>
  C2, amended. The label of exam \<open>e\<close> for student \<open>u\<close>, from the records \<open>rs\<close> that the
  batched results call returned. A record counts only when it carries an exam id and a
  student id (neither undefined nor null) whose strings are \<open>e\<close> and \<open>u\<close>; every other record
  is passed over, and with no such record the outcome is that of the local fallback.
  Otherwise the last such record decides: status \<open>submitted\<close> gives the label "submitted";
  else \<open>remainingSeconds > 0\<close> with the clock at or before the end of the exam
  (\<open>now <= end\<close>, which is false when the end is no date) gives "resumable"; else the exam
  gets no label, and the local entry is not consulted. A record whose remaining seconds
  cannot be compared, because the conversion to a number throws, gives no label of its
  own either: the outcome is then that of the local fallback, at a later reading of the
  clock.
\<close>

theorem server_record_label_until_end:
  "examStatusCheck E w (resultsMap_of E u rs Map.empty) e u now later end' =
     (case find (\<lambda>r. server_record_matches E r e u) (rev rs) of
        None \<Rightarrow> localFallback E w e u now end'
      | Some sess \<Rightarrow>
          if get_prop sess ''status'' = JStr ''submitted'' then (Some Submitted, ServerSession)
          else (case js_gt E (get_prop sess ''remainingSeconds'') (Fin 0) of
                  Inl err \<Rightarrow> localFallback E w e u later end'
                | Inr timeRemains \<Rightarrow>
                    if timeRemains \<and> num_le (Fin now) end' then (Some Resumable, ServerSession)
                    else (None, NoReason)))"
proof (cases "find (\<lambda>r. server_record_matches E r e u) (rev rs)")
  case None
  then show ?thesis
    by (simp add: record_not_found)
next
  case (Some sess)
  then show ?thesis
    by (simp add: record_found)
qed

lemma json_value_jsonify:
  "v \<noteq> JUndefined \<Longrightarrow> json_value (jsonify v)"
  "json_props (jsonify_props kvs)"
  "json_elems (jsonify_elems xs)"
  by (induction v and kvs and xs rule: jsonify_jsonify_props_jsonify_elems.induct)
     (auto split: jsnum.splits)

lemma json_props_lookup: "json_props kvs \<Longrightarrow> map_of kvs k = Some x \<Longrightarrow> json_value x"
  by (induction kvs) (auto split: if_splits)

lemma get_prop_json_value: "json_value v \<Longrightarrow> get_prop v k \<noteq> JNum NaN"
proof (cases v)
  case (JObj kvs)
  assume "json_value v"
  then show ?thesis
    using JObj json_props_lookup[of kvs k] by (auto split: option.splits)
qed auto

lemma parse_snapshot: "JSON_parse (snapshot s) = Inr (jsonify (JObj (session_object s)))"
  using json_value_jsonify(1)[of "JObj (session_object s)"]
  by (simp add: JSON_parse_def snapshot_def JSON_stringify_def)

lemma saved_world_fallback:
  assumes "now \<le> tend"
  shows "localFallback E saved_world ''e1'' ''u2'' now (Fin tend) = (Some Resumable, LocalSession)"
proof -
  have g: "getItem saved_world (''exam_session_'' @ ''e1'' @ ''_'' @ ''u2'') = Some (snapshot example_session)"
    by (simp add: getItem_def saved_world_def session_key_def)
  have t: "text_truthy (snapshot example_session)"
    by (simp add: text_truthy_def snapshot_def JSON_stringify_def)
  have r: "isLocalSessionResumable E (jsonify (JObj (session_object example_session))) ''e1'' ''u2'' now (Fin tend)
           = Inr True"
    using assms
    by (simp add: isLocalSessionResumable_def session_object_def example_session_def Let_def
        nullish_or_def nullish_def status_string_def typeof_number_def the_number_def
        num_le_def num_eq_def num_gt_def)
  show ?thesis
    unfolding localFallback_def g using t r by (simp add: parse_snapshot)
qed

theorem server_record_label_witness:
  "examStatusCheck offline_env empty_world
      (resultsMap_of offline_env ''u2'' [submitted_record, running_record, foreign_record] Map.empty)
      ''e1'' ''u2'' 1700000100000 1700000100001 (Fin 1800000000000) = (Some Submitted, ServerSession)
   \<and> examStatusCheck offline_env empty_world
      (resultsMap_of offline_env ''u2'' [submitted_record, running_record, foreign_record] Map.empty)
      ''e2'' ''u2'' 1700000100000 1700000100001 (Fin 1800000000000) = (Some Resumable, ServerSession)
   \<and> examStatusCheck offline_env empty_world
      (resultsMap_of offline_env ''u2'' [submitted_record, running_record, foreign_record] Map.empty)
      ''e2'' ''u2'' 1900000000000 1900000000001 (Fin 1800000000000) = (None, NoReason)
   \<and> examStatusCheck offline_env empty_world
      (resultsMap_of offline_env ''u2'' [submitted_record, running_record, foreign_record] Map.empty)
      ''e3'' ''u2'' 1700000100000 1700000100001 (Fin 1800000000000) = (None, LocalNotFound)
   \<and> examStatusCheck offline_env saved_world (resultsMap_of offline_env ''u2'' [opaque_record] Map.empty)
      ''e1'' ''u2'' 1700000100000 1700000100001 (Fin 1800000000000) = (Some Resumable, LocalSession)"
proof -
  let ?rs = "[submitted_record, running_record, foreign_record]"
  have f1: "find (\<lambda>r. server_record_matches offline_env r ''e1'' ''u2'') (rev ?rs) = Some submitted_record"
    and f2: "find (\<lambda>r. server_record_matches offline_env r ''e2'' ''u2'') (rev ?rs) = Some running_record"
    and f3: "find (\<lambda>r. server_record_matches offline_env r ''e3'' ''u2'') (rev ?rs) = None"
    and f4: "find (\<lambda>r. server_record_matches offline_env r ''e1'' ''u2'') (rev [opaque_record])
             = Some opaque_record"
    by (simp_all add: record_matches_simps)
  have s1: "get_prop submitted_record ''status'' = JStr ''submitted''"
    and s2: "get_prop running_record ''status'' \<noteq> JStr ''submitted''"
    and r2: "js_gt offline_env (get_prop running_record ''remainingSeconds'') (Fin 0) = Inr True"
    and s4: "get_prop opaque_record ''status'' \<noteq> JStr ''submitted''"
    and r4: "js_gt offline_env (get_prop opaque_record ''remainingSeconds'') (Fin 0) = Inl TypeError"
    by (simp_all add: submitted_record_def running_record_def opaque_record_def js_gt_number num_gt_def
        js_gt_def js_ToNumber_def has_own_def)
  have l: "localFallback offline_env empty_world ''e3'' ''u2'' 1700000100000 (Fin 1800000000000)
           = (None, LocalNotFound)"
    by (simp add: localFallback_def getItem_def empty_world_def)
  have l4: "localFallback offline_env saved_world ''e1'' ''u2'' 1700000100001 (Fin 1800000000000)
           = (Some Resumable, LocalSession)"
    by (rule saved_world_fallback) simp
  have c: "num_le (Fin 1700000100000) (Fin 1800000000000)"
    "\<not> num_le (Fin 1900000000000) (Fin 1800000000000)"
    by (simp_all add: num_le_def num_eq_def)
  have a1: "examStatusCheck offline_env empty_world (resultsMap_of offline_env ''u2'' ?rs Map.empty)
      ''e1'' ''u2'' 1700000100000 1700000100001 (Fin 1800000000000) = (Some Submitted, ServerSession)"
    unfolding server_record_label_until_end f1 by (simp only: option.case s1 if_True simp_thms)
  have a2: "examStatusCheck offline_env empty_world (resultsMap_of offline_env ''u2'' ?rs Map.empty)
      ''e2'' ''u2'' 1700000100000 1700000100001 (Fin 1800000000000) = (Some Resumable, ServerSession)"
    unfolding server_record_label_until_end f2 using s2 c(1)
    by (simp only: option.case r2 sum.case if_True if_False simp_thms)
  have a3: "examStatusCheck offline_env empty_world (resultsMap_of offline_env ''u2'' ?rs Map.empty)
      ''e2'' ''u2'' 1900000000000 1900000000001 (Fin 1800000000000) = (None, NoReason)"
    unfolding server_record_label_until_end f2 using s2 c(2)
    by (simp only: option.case r2 sum.case if_True if_False simp_thms)
  have a4: "examStatusCheck offline_env empty_world (resultsMap_of offline_env ''u2'' ?rs Map.empty)
      ''e3'' ''u2'' 1700000100000 1700000100001 (Fin 1800000000000) = (None, LocalNotFound)"
    unfolding server_record_label_until_end f3 by (simp only: option.case l simp_thms)
  have a5: "examStatusCheck offline_env saved_world (resultsMap_of offline_env ''u2'' [opaque_record] Map.empty)
      ''e1'' ''u2'' 1700000100000 1700000100001 (Fin 1800000000000) = (Some Resumable, LocalSession)"
    unfolding server_record_label_until_end f4 using s4
    by (simp only: option.case r4 sum.case if_False l4 simp_thms)
  show ?thesis
    using a1 a2 a3 a4 a5 by (intro conjI)
qed

lemma positive_unless_le:
  assumes "x \<noteq> JNum NaN"
  shows "typeof_number (nullish_or x (JNum (Fin 0)))
           \<and> \<not> num_le (the_number (nullish_or x (JNum (Fin 0)))) (Fin 0)
         \<longleftrightarrow> positive_number (if nullish x then None else Some x)"
proof (cases x)
  case (JNum n)
  then show ?thesis
    using assms
    by (cases n) (auto simp: nullish_or_def nullish_def typeof_number_def the_number_def num_le_def
        num_eq_def num_gt_def positive_number_def)
qed (auto simp: nullish_or_def nullish_def typeof_number_def the_number_def num_le_def num_eq_def
      positive_number_def)

lemma positive_truthy_gt:
  "truthy (nullish_or x (JNum (Fin 0))) \<and> typeof_number (nullish_or x (JNum (Fin 0)))
     \<and> num_gt (the_number (nullish_or x (JNum (Fin 0)))) (Fin 0)
   \<longleftrightarrow> positive_number (if nullish x then None else Some x)"
proof (cases x)
  case (JNum n)
  then show ?thesis
    by (cases n) (auto simp: nullish_or_def nullish_def typeof_number_def the_number_def
        num_gt_def positive_number_def)
qed (auto simp: nullish_or_def nullish_def typeof_number_def the_number_def num_gt_def positive_number_def)

lemma status_submitted:
  "strict_eq (nullish_or x (JStr ''in_progress'')) (JStr ''submitted'')
   \<longleftrightarrow> (if nullish x then None else Some x) = Some (JStr ''submitted'')"
  by (auto simp: strict_eq_string nullish_or_def nullish_def)

lemma local_check_iff_spec:
  assumes nn: "\<And>k. get_prop entry k \<noteq> JNum NaN"
  shows "isLocalSessionResumable E entry e u now end' = Inr True
         \<longleftrightarrow> local_entry_resumable E entry e u now end'"
proof -
  let ?ex = "nullish_or (get_prop entry ''examId'') (get_prop entry ''exam_id'')"
  let ?st = "nullish_or (nullish_or (get_prop entry ''studentId'') (get_prop entry ''student_id''))
               (get_prop entry ''student'')"
  let ?rem = "nullish_or (get_prop entry ''remainingSeconds'') (get_prop entry ''remaining_seconds'')"
  let ?start = "nullish_or (get_prop entry ''startTime'') (get_prop entry ''start_time'')"
  let ?status = "get_prop entry ''status''"
  have nan: "?rem \<noteq> JNum NaN"
    using nn by (simp add: nullish_or_def)
  have t: "truthy entry" if a: "\<not> nullish ?ex"
  proof (rule ccontr)
    assume "\<not> truthy entry"
    then have "get_prop entry ''examId'' = JUndefined" and "get_prop entry ''exam_id'' = JUndefined"
      by (simp_all add: get_prop_falsy)
    then show False
      using a by (simp add: nullish_or_def nullish_def)
  qed
  have code: "isLocalSessionResumable E entry e u now end' = Inr True \<longleftrightarrow>
      truthy entry \<and> \<not> nullish ?ex \<and> \<not> nullish ?st
      \<and> \<not> strict_eq (nullish_or ?status (JStr ''in_progress'')) (JStr ''submitted'')
      \<and> (typeof_number (nullish_or ?rem (JNum (Fin 0)))
           \<and> \<not> num_le (the_number (nullish_or ?rem (JNum (Fin 0)))) (Fin 0))
      \<and> (truthy (nullish_or ?start (JNum (Fin 0))) \<and> typeof_number (nullish_or ?start (JNum (Fin 0)))
           \<and> num_gt (the_number (nullish_or ?start (JNum (Fin 0)))) (Fin 0))
      \<and> \<not> num_gt (Fin now) end' \<and> js_String E ?ex = Inr e \<and> js_String E ?st = Inr u"
    by (auto simp: isLocalSessionResumable_def Let_def null_default split: sum.splits)
  have spec: "local_entry_resumable E entry e u now end' \<longleftrightarrow>
      (\<not> nullish ?ex \<and> js_String E ?ex = Inr e) \<and> (\<not> nullish ?st \<and> js_String E ?st = Inr u)
      \<and> (if nullish ?status then None else Some ?status) \<noteq> Some (JStr ''submitted'')
      \<and> positive_number (if nullish ?rem then None else Some ?rem)
      \<and> positive_number (if nullish ?start then None else Some ?start)
      \<and> \<not> num_gt (Fin now) end'"
    unfolding local_entry_resumable_def entry_ids_match_def first_present_one first_present_two first_present_three field_matches_def
    by (simp split: if_splits)
  show ?thesis
    unfolding code spec status_submitted positive_unless_le[OF nan] positive_truthy_gt
    using t by blast
qed

lemma ids_required:
  assumes "isLocalSessionResumable E entry e u now end' = Inr True"
  shows "entry_ids_match E entry e u"
proof -
  have "\<not> nullish (nullish_or (get_prop entry ''examId'') (get_prop entry ''exam_id''))
        \<and> js_String E (nullish_or (get_prop entry ''examId'') (get_prop entry ''exam_id'')) = Inr e
        \<and> \<not> nullish (nullish_or (nullish_or (get_prop entry ''studentId'') (get_prop entry ''student_id''))
               (get_prop entry ''student''))
        \<and> js_String E (nullish_or (nullish_or (get_prop entry ''studentId'') (get_prop entry ''student_id''))
               (get_prop entry ''student'')) = Inr u"
    using assms
    by (auto simp: isLocalSessionResumable_def Let_def null_default split: if_splits sum.splits)
  then show ?thesis
    unfolding entry_ids_match_def first_present_two first_present_three field_matches_def by simp
qed

lemma localFallback_resumable:
  "fst (localFallback E w e u now end') = Some Resumable \<longleftrightarrow>
     (\<exists>raw entry. getItem w (session_key e u) = Some raw \<and> JSON_parse raw = Inr entry
         \<and> local_entry_resumable E entry e u now end')"
proof (cases "getItem w (session_key e u)")
  case None
  then show ?thesis
    by (simp add: localFallback_def session_key_def)
next
  case (Some raw)
  show ?thesis
  proof (cases raw)
    case (OtherText t)
    then show ?thesis
      using Some by (simp add: localFallback_def session_key_def JSON_parse_def text_truthy_def)
  next
    case (JsonText v)
    show ?thesis
    proof (cases "json_value v")
      case False
      then show ?thesis
        using Some JsonText
        by (simp add: localFallback_def session_key_def JSON_parse_def text_truthy_def)
    next
      case True
      have "isLocalSessionResumable E v e u now end' = Inr True \<longleftrightarrow> local_entry_resumable E v e u now end'"
        by (rule local_check_iff_spec) (rule get_prop_json_value[OF True])
      then show ?thesis
        using Some JsonText True
        by (cases "isLocalSessionResumable E v e u now end'")
           (auto simp: localFallback_def session_key_def JSON_parse_def text_truthy_def)
    qed
  qed
qed

text \<open>
  C1. With no matching server record for exam \<open>e\<close> and student \<open>u\<close>, the exam is labelled
  "resumable" exactly when the local store holds a text under the key of \<open>(e, u)\<close> that parses
  to an entry which carries an exam id whose string is \<open>e\<close> and a student id whose string is
  \<open>u\<close>, whose status is not \<open>submitted\<close>, whose remaining seconds are a number above 0, whose
  start time is a number above 0, while the clock is not after the exam's end. An entry of
  any kind without one of the ids, or with an id of another exam or student, is never
  resumable, for any exam and student.
\<close>

theorem local_entry_label:
  assumes "find (\<lambda>r. server_record_matches E r e u) (rev rs) = None"
  shows "(fst (examStatusCheck E w (resultsMap_of E u rs Map.empty) e u now later end') = Some Resumable
          \<longleftrightarrow> (\<exists>raw entry. getItem w (session_key e u) = Some raw \<and> JSON_parse raw = Inr entry
                  \<and> local_entry_resumable E entry e u now end'))
       \<and> (\<not> entry_ids_match E entry' e' u' \<longrightarrow> isLocalSessionResumable E entry' e' u' now' end'' \<noteq> Inr True)"
proof
  have "examStatusCheck E w (resultsMap_of E u rs Map.empty) e u now later end' = localFallback E w e u now end'"
    by (rule record_not_found[OF assms])
  then show "fst (examStatusCheck E w (resultsMap_of E u rs Map.empty) e u now later end') = Some Resumable
          \<longleftrightarrow> (\<exists>raw entry. getItem w (session_key e u) = Some raw \<and> JSON_parse raw = Inr entry
                  \<and> local_entry_resumable E entry e u now end')"
    by (simp add: localFallback_resumable)
next
  show "\<not> entry_ids_match E entry' e' u' \<longrightarrow> isLocalSessionResumable E entry' e' u' now' end'' \<noteq> Inr True"
    using ids_required by blast
qed

lemma example_snapshot_resumable:
  "local_entry_resumable offline_env (jsonify (JObj (session_object example_session))) ''e1'' ''u2''
      1700000100000 (Fin 1800000000000)"
  by (simp add: local_entry_resumable_def entry_ids_match_def field_matches_def positive_number_def
      session_object_def example_session_def nullish_def status_string_def num_gt_def)

theorem local_entry_label_witness:
  "fst (examStatusCheck offline_env saved_world (resultsMap_of offline_env ''u2'' [foreign_record] Map.empty)
          ''e1'' ''u2'' 1700000100000 1700000100001 (Fin 1800000000000)) = Some Resumable
   \<and> isLocalSessionResumable offline_env
         (JObj [(''examId'', JStr ''e1''), (''remainingSeconds'', JNum (Fin 42)), (''startTime'', JNum (Fin 5))])
         ''e1'' ''u2'' 1700000100000 (Fin 1800000000000) \<noteq> Inr True
   \<and> isLocalSessionResumable offline_env
         (JObj [(''examId'', JStr ''e7''), (''studentId'', JStr ''u2''), (''remainingSeconds'', JNum (Fin 42)),
                (''startTime'', JNum (Fin 5))])
         ''e1'' ''u2'' 1700000100000 (Fin 1800000000000) \<noteq> Inr True"
proof -
  have f: "find (\<lambda>r. server_record_matches offline_env r ''e1'' ''u2'') (rev [foreign_record]) = None"
    by (simp add: record_matches_simps)
  have g: "getItem saved_world (session_key ''e1'' ''u2'') = Some (snapshot example_session)"
    by (simp add: getItem_def saved_world_def)
  have ex: "\<exists>raw entry. getItem saved_world (session_key ''e1'' ''u2'') = Some raw \<and> JSON_parse raw = Inr entry
              \<and> local_entry_resumable offline_env entry ''e1'' ''u2'' 1700000100000 (Fin 1800000000000)"
    using g parse_snapshot[of example_session] example_snapshot_resumable by blast
  have m1: "\<not> entry_ids_match offline_env
         (JObj [(''examId'', JStr ''e1''), (''remainingSeconds'', JNum (Fin 42)), (''startTime'', JNum (Fin 5))])
         ''e1'' ''u2''"
    and m2: "\<not> entry_ids_match offline_env
         (JObj [(''examId'', JStr ''e7''), (''studentId'', JStr ''u2''), (''remainingSeconds'', JNum (Fin 42)),
                (''startTime'', JNum (Fin 5))])
         ''e1'' ''u2''"
    by (simp_all add: entry_ids_match_def field_matches_def nullish_def)
  show ?thesis
    using local_entry_label[OF f, where w = saved_world and now = 1700000100000 and later = 1700000100001
            and end' = "Fin 1800000000000"
            and entry' = "JObj [(''examId'', JStr ''e1''), (''remainingSeconds'', JNum (Fin 42)), (''startTime'', JNum (Fin 5))]"
            and e' = "''e1''" and u' = "''u2''" and now' = 1700000100000 and end'' = "Fin 1800000000000"]
          local_entry_label[OF f, where w = saved_world and now = 1700000100000 and later = 1700000100001
            and end' = "Fin 1800000000000"
            and entry' = "JObj [(''examId'', JStr ''e7''), (''studentId'', JStr ''u2''), (''remainingSeconds'', JNum (Fin 42)),
                (''startTime'', JNum (Fin 5))]"
            and e' = "''e1''" and u' = "''u2''" and now' = 1700000100000 and end'' = "Fin 1800000000000"]
          ex m1 m2
    by blast
qed

section \<open>From autosave to resume\<close>

lemma snapshot_fields:
  assumes "startTime s = Fin t" and "remainingSeconds s = Fin r"
  shows "get_prop (jsonify (JObj (session_object s))) ''examId'' = JStr (examId s)"
    and "get_prop (jsonify (JObj (session_object s))) ''studentId'' = JStr (studentId s)"
    and "get_prop (jsonify (JObj (session_object s))) ''status'' = JStr (status_string (status s))"
    and "get_prop (jsonify (JObj (session_object s))) ''remainingSeconds'' = JNum (Fin r)"
    and "get_prop (jsonify (JObj (session_object s))) ''startTime'' = JNum (Fin t)"
  using assms by (simp_all add: session_object_def)

lemma saved_entry:
  assumes "storage_writable E"
  shows "getItem (fst (saveExamProgress E s w)) (''exam_session_'' @ examId s @ ''_'' @ studentId s)
         = Some (snapshot s)"
  using assms
  by (cases "http_put E (save_url s) (save_payload s)")
     (simp_all add: saveExamProgress_def try_catch_def bind_def ret_def effect_def axios_put_def
        localStorage_setItem_def setItem_def emit_def save_url_def save_payload_def snapshot_def
        getItem_def)

lemma snapshot_resumable:
  assumes "startTime s = Fin t" and "remainingSeconds s = Fin r"
  shows "isLocalSessionResumable E (jsonify (JObj (session_object s))) (examId s) (studentId s) now end'
         = Inr (status s = in_progress \<and> 0 < r \<and> 0 < t \<and> \<not> num_gt (Fin now) end')"
proof -
  have tr: "truthy (jsonify (JObj (session_object s)))"
    by simp
  show ?thesis
    unfolding isLocalSessionResumable_def Let_def snapshot_fields[OF assms]
    using tr
    by (cases "status s")
       (auto simp: nullish_or_def nullish_def status_string_def typeof_number_def the_number_def
          num_le_def num_eq_def num_gt_def)
qed

text \<open>
  C9, as the claim states it, fails for a session whose start time is not a finite number.
  \<open>startExamSession\<close> takes the start time from \<open>new Date(data.start_time).getTime()\<close>,
  which is NaN when the server's \<open>start_time\<close> is no date. \<open>JSON.stringify\<close> writes NaN as
  null, so the entry read back has \<open>startTime\<close> null where the session has NaN; the other
  fields are intact, and the entry is not resumable.
\<close>

theorem autosave_undated_session:
  "getItem (fst (saveExamProgress offline_env undated_session empty_world)) (session_key ''e1'' ''u2'')
     = Some (snapshot undated_session)
   \<and> JSON_parse (snapshot undated_session)
     = Inr (JObj [(''examId'', JStr ''e1''), (''studentId'', JStr ''u2''), (''startTime'', JNull),
                  (''answers'', JObj [(''q1'', JStr ''a'')]), (''remainingSeconds'', JNum (Fin 42)),
                  (''status'', JStr ''in_progress'')])
   \<and> startTime undated_session = NaN
   \<and> localFallback offline_env (fst (saveExamProgress offline_env undated_session empty_world))
        ''e1'' ''u2'' 1700000100000 (Fin 1800000000000) = (None, LocalInvalid)"
proof -
  have w: "storage_writable offline_env"
    by (simp add: offline_env_def)
  have k: "examId undated_session = ''e1''" "studentId undated_session = ''u2''"
    "startTime undated_session = NaN"
    by (simp_all add: undated_session_def example_session_def)
  have j: "jsonify (JObj (session_object undated_session))
     = JObj [(''examId'', JStr ''e1''), (''studentId'', JStr ''u2''), (''startTime'', JNull),
             (''answers'', JObj [(''q1'', JStr ''a'')]), (''remainingSeconds'', JNum (Fin 42)),
             (''status'', JStr ''in_progress'')]"
    by (simp add: session_object_def undated_session_def example_session_def status_string_def)
  have g: "getItem (fst (saveExamProgress offline_env undated_session empty_world))
             (''exam_session_'' @ ''e1'' @ ''_'' @ ''u2'') = Some (snapshot undated_session)"
    using saved_entry[OF w, of undated_session empty_world] unfolding k .
  have p: "JSON_parse (snapshot undated_session)
     = Inr (JObj [(''examId'', JStr ''e1''), (''studentId'', JStr ''u2''), (''startTime'', JNull),
                  (''answers'', JObj [(''q1'', JStr ''a'')]), (''remainingSeconds'', JNum (Fin 42)),
                  (''status'', JStr ''in_progress'')])"
    using parse_snapshot[of undated_session] unfolding j .
  have t: "text_truthy (snapshot undated_session)"
    by (simp add: text_truthy_def snapshot_def JSON_stringify_def)
  have r: "isLocalSessionResumable offline_env
             (JObj [(''examId'', JStr ''e1''), (''studentId'', JStr ''u2''), (''startTime'', JNull),
                    (''answers'', JObj [(''q1'', JStr ''a'')]), (''remainingSeconds'', JNum (Fin 42)),
                    (''status'', JStr ''in_progress'')])
             ''e1'' ''u2'' 1700000100000 (Fin 1800000000000) = Inr False"
    by (simp add: isLocalSessionResumable_def Let_def nullish_or_def nullish_def typeof_number_def
        the_number_def num_le_def num_eq_def num_gt_def)
  have l: "localFallback offline_env (fst (saveExamProgress offline_env undated_session empty_world))
        ''e1'' ''u2'' 1700000100000 (Fin 1800000000000) = (None, LocalInvalid)"
    unfolding localFallback_def g using t by (simp add: p r)
  show ?thesis
    using g p k(3) l by (simp add: session_key_def)
qed

text \<open>
  C9, amended. After \<open>saveExamProgress\<close> of a session whose start time and remaining
  seconds are finite numbers, in a store that accepts the write: the store holds the
  snapshot under the key of the session's \<open>examId\<close> and \<open>studentId\<close>; the snapshot parses
  to an entry whose \<open>examId\<close>, \<open>studentId\<close>, \<open>status\<close>, \<open>remainingSeconds\<close> and \<open>startTime\<close> are
  the session's; the dashboard's local fallback for that exam and student reads this entry
  and labels by it; and the entry is resumable exactly when the session is in progress with
  time left, a positive start time and an exam that has not ended.
\<close>

theorem autosave_resume_roundtrip_finite:
  assumes "storage_writable E" and "startTime s = Fin t" and "remainingSeconds s = Fin r"
  shows "\<exists>entry.
           getItem (fst (saveExamProgress E s w)) (session_key (examId s) (studentId s)) = Some (snapshot s)
         \<and> JSON_parse (snapshot s) = Inr entry
         \<and> get_prop entry ''examId'' = JStr (examId s)
         \<and> get_prop entry ''studentId'' = JStr (studentId s)
         \<and> get_prop entry ''status'' = JStr (status_string (status s))
         \<and> get_prop entry ''remainingSeconds'' = JNum (remainingSeconds s)
         \<and> get_prop entry ''startTime'' = JNum (startTime s)
         \<and> localFallback E (fst (saveExamProgress E s w)) (examId s) (studentId s) now end'
             = (if isLocalSessionResumable E entry (examId s) (studentId s) now end' = Inr True
                then (Some Resumable, LocalSession) else (None, LocalInvalid))
         \<and> (isLocalSessionResumable E entry (examId s) (studentId s) now end' = Inr True
              \<longleftrightarrow> status s = in_progress \<and> 0 < r \<and> 0 < t \<and> \<not> num_gt (Fin now) end')"
proof (intro exI[of _ "jsonify (JObj (session_object s))"] conjI)
  show "getItem (fst (saveExamProgress E s w)) (session_key (examId s) (studentId s)) = Some (snapshot s)"
    using saved_entry[OF assms(1)] by (simp add: session_key_def)
  show "JSON_parse (snapshot s) = Inr (jsonify (JObj (session_object s)))"
    by (rule parse_snapshot)
  have t: "text_truthy (snapshot s)"
    by (simp add: text_truthy_def snapshot_def JSON_stringify_def)
  show "localFallback E (fst (saveExamProgress E s w)) (examId s) (studentId s) now end'
             = (if isLocalSessionResumable E (jsonify (JObj (session_object s))) (examId s) (studentId s) now end'
                   = Inr True
                then (Some Resumable, LocalSession) else (None, LocalInvalid))"
    unfolding localFallback_def saved_entry[OF assms(1)]
    using t by (simp add: parse_snapshot snapshot_resumable[OF assms(2,3)] del: jsonify.simps)
  show "isLocalSessionResumable E (jsonify (JObj (session_object s))) (examId s) (studentId s) now end'
              = Inr True
              \<longleftrightarrow> status s = in_progress \<and> 0 < r \<and> 0 < t \<and> \<not> num_gt (Fin now) end'"
    unfolding snapshot_resumable[OF assms(2,3)] by simp
  show "get_prop (jsonify (JObj (session_object s))) ''examId'' = JStr (examId s)"
    by (rule snapshot_fields(1)[OF assms(2,3)])
  show "get_prop (jsonify (JObj (session_object s))) ''studentId'' = JStr (studentId s)"
    by (rule snapshot_fields(2)[OF assms(2,3)])
  show "get_prop (jsonify (JObj (session_object s))) ''status'' = JStr (status_string (status s))"
    by (rule snapshot_fields(3)[OF assms(2,3)])
  show "get_prop (jsonify (JObj (session_object s))) ''remainingSeconds'' = JNum (remainingSeconds s)"
    by (simp only: assms(3) snapshot_fields(4)[OF assms(2,3)])
  show "get_prop (jsonify (JObj (session_object s))) ''startTime'' = JNum (startTime s)"
    by (simp only: assms(2) snapshot_fields(5)[OF assms(2,3)])
qed

theorem autosave_resume_roundtrip_witness:
  "getItem (fst (saveExamProgress offline_env example_session empty_world)) (session_key ''e1'' ''u2'')
     = Some (snapshot example_session)
   \<and> localFallback offline_env (fst (saveExamProgress offline_env example_session empty_world)) ''e1'' ''u2''
        1700000100000 (Fin 1800000000000) = (Some Resumable, LocalSession)"
proof -
  have w: "storage_writable offline_env"
    by (simp add: offline_env_def)
  have t: "startTime example_session = Fin 1700000000000" and r: "remainingSeconds example_session = Fin 42"
    and k: "examId example_session = ''e1''" "studentId example_session = ''u2''"
    and st: "status example_session = in_progress"
    by (simp_all add: example_session_def)
  have c: "status example_session = in_progress \<and> (0 :: real) < 42 \<and> (0 :: real) < 1700000000000
           \<and> \<not> num_gt (Fin 1700000100000) (Fin 1800000000000)"
    by (simp add: st num_gt_def)
  show ?thesis
    using autosave_resume_roundtrip_finite[OF w t r, of empty_world 1700000100000 "Fin 1800000000000"] c
    unfolding k by auto
qed

end
